theory Spec2Isabelle
  imports Main
begin

section \<open>Strings: decimal rendering, trimming, glob patterns\<close>

text \<open>
  The services build Redis keys with JavaScript template literals. A user id is the
  auto-increment primary key of the users table (a non-negative integer carried in the
  JWT payload), so \<open>${userId}\<close> is its decimal rendering.
\<close>

definition digit_char :: "nat \<Rightarrow> char" where
  "digit_char d =
     (if d = 0 then CHR ''0'' else if d = 1 then CHR ''1'' else if d = 2 then CHR ''2''
      else if d = 3 then CHR ''3'' else if d = 4 then CHR ''4'' else if d = 5 then CHR ''5''
      else if d = 6 then CHR ''6'' else if d = 7 then CHR ''7'' else if d = 8 then CHR ''8''
      else CHR ''9'')"

function string_of_nat :: "nat \<Rightarrow> string" where
  "string_of_nat n =
     (if n < 10 then [digit_char n]
      else string_of_nat (n div 10) @ [digit_char (n mod 10)])"
  by pat_completeness auto
termination
  by (relation "measure (\<lambda>n. n)") auto

declare string_of_nat.simps [simp del]

text \<open>
  express-validator's \<open>trim()\<close> sanitizer strips white space from both ends of a
  field and writes the result back into the request body.
\<close>

definition is_space :: "char \<Rightarrow> bool" where
  "is_space c = (c = CHR '' '' \<or> c = CHR 0x09 \<or> c = CHR 0x0A \<or> c = CHR 0x0B
                 \<or> c = CHR 0x0C \<or> c = CHR 0x0D)"

definition trim :: "string \<Rightarrow> string" where
  "trim s = rev (dropWhile is_space (rev (dropWhile is_space s)))"

text \<open>
  Redis \<open>KEYS pattern\<close> matches glob-style. The patterns this code builds are a literal
  prefix followed by one \<open>*\<close>; the matcher below implements \<open>*\<close> (any run of
  characters) and \<open>?\<close> (any one character) and compares every other character
  literally.
\<close>

fun glob_match :: "string \<Rightarrow> string \<Rightarrow> bool" where
  "glob_match [] [] = True"
| "glob_match [] (c # s) = False"
| "glob_match (p # ps) [] = (p = CHR ''*'' \<and> glob_match ps [])"
| "glob_match (p # ps) (c # s) =
     (if p = CHR ''*'' then glob_match ps (c # s) \<or> glob_match (p # ps) s
      else (p = CHR ''?'' \<or> p = c) \<and> glob_match ps s)"

section \<open>The Redis client\<close>

text \<open>
  The key-value store holds, for every key, a value and the second at which the entry
  expires. An expired entry does not exist for any command. Every command of the client
  returns a promise that may reject; \<open>faults\<close> says which commands reject during the
  request at hand, and which database statements (numbered in the order the handler
  issues them) throw.
\<close>

type_synonym redis = "(string \<times> nat \<times> string) list"

datatype error = RedisError | DbError | JwtError

record faults =
  get_fails :: bool
  setEx_fails :: bool
  keys_fails :: bool
  del_fails :: bool
  db_fails :: "nat \<Rightarrow> bool"

definition no_faults :: faults where
  "no_faults = \<lparr>get_fails = False, setEx_fails = False, keys_fails = False,
                 del_fails = False, db_fails = (\<lambda>_. False)\<rparr>"

definition live :: "nat \<Rightarrow> redis \<Rightarrow> redis" where
  "live now r = filter (\<lambda>(k, e, v). now < e) r"

definition lookup :: "nat \<Rightarrow> redis \<Rightarrow> string \<Rightarrow> string option" where
  "lookup now r k = map_option snd (map_of (live now r) k)"

definition ttl_of :: "nat \<Rightarrow> redis \<Rightarrow> string \<Rightarrow> nat option" where
  "ttl_of now r k = map_option (\<lambda>(e, v). e - now) (map_of (live now r) k)"

definition redis_get :: "faults \<Rightarrow> nat \<Rightarrow> redis \<Rightarrow> string \<Rightarrow> error + string option" where
  "redis_get f now r k = (if get_fails f then Inl RedisError else Inr (lookup now r k))"

text \<open>\<open>SETEX key seconds value\<close> replaces the entry; Redis rejects a TTL that is not positive.\<close>

definition redis_setEx ::
  "faults \<Rightarrow> nat \<Rightarrow> redis \<Rightarrow> string \<Rightarrow> int \<Rightarrow> string \<Rightarrow> error + redis" where
  "redis_setEx f now r k seconds v =
     (if setEx_fails f \<or> seconds \<le> 0 then Inl RedisError
      else Inr ((k, now + nat seconds, v) # filter (\<lambda>(k', e, v'). k' \<noteq> k) (live now r)))"

definition redis_keys :: "faults \<Rightarrow> nat \<Rightarrow> redis \<Rightarrow> string \<Rightarrow> error + string list" where
  "redis_keys f now r pattern =
     (if keys_fails f then Inl RedisError
      else Inr (filter (glob_match pattern) (map fst (live now r))))"

definition redis_del :: "faults \<Rightarrow> nat \<Rightarrow> redis \<Rightarrow> string list \<Rightarrow> error + redis" where
  "redis_del f now r ks =
     (if del_fails f then Inl RedisError
      else Inr (filter (\<lambda>(k, e, v). k \<notin> set ks) (live now r)))"

section \<open>HTTP responses\<close>

text \<open>
  A response is a status code and a JSON body. The services answer with the envelope
  \<open>{success, message, data}\<close>; \<open>rows\<close> holds the resource rows placed under \<open>data\<close>
  (none in an error envelope) and \<open>counts\<close> the totals a listing reports beside them.
\<close>

record 'b response =
  status :: nat
  body :: 'b

record 'r envelope =
  success :: bool
  message :: string
  rows :: "'r list"
  counts :: "nat list"

definition reply :: "nat \<Rightarrow> bool \<Rightarrow> string \<Rightarrow> 'r list \<Rightarrow> 'r envelope response" where
  "reply st ok msg rs =
     \<lparr>status = st, body = \<lparr>success = ok, message = msg, rows = rs, counts = []\<rparr>\<rparr>"

definition reply_page :: "'r list \<Rightarrow> nat list \<Rightarrow> 'r envelope response" where
  "reply_page rs cs =
     \<lparr>status = 200, body = \<lparr>success = True, message = [], rows = rs, counts = cs\<rparr>\<rparr>"

definition is_2xx :: "nat \<Rightarrow> bool" where
  "is_2xx st = (200 \<le> st \<and> st < 300)"

section \<open>Notes service: cache middleware and invalidation\<close>

text \<open>
  The notes microservice caches \<open>GET /\<close> with \<open>cacheMiddleware(300)\<close> under the key
  \<open>cache:notes:${req.user.id}:${req.originalUrl}\<close> and calls \<open>clearUserCache\<close> after
  every write.
\<close>

record Note =
  note_id :: nat
  title :: string
  note_text :: string
  note_user_id :: nat
  tags :: "string list"
  is_pinned :: bool
  is_archived :: bool
  note_created_at :: nat
  note_updated_at :: nat

definition cache_key :: "nat \<Rightarrow> string \<Rightarrow> string" where
  "cache_key userId originalUrl = ''cache:notes:'' @ string_of_nat userId @ '':'' @ originalUrl"

text \<open>
  What a middleware does with a request: it answers itself, or it calls \<open>next()\<close>.
  \<open>Next True\<close> is \<open>next()\<close> after \<open>res.json\<close> has been replaced by the caching wrapper,
  \<open>Next False\<close> is \<open>next()\<close> with the response object untouched.
\<close>

datatype 'b middleware_result = Respond "'b response" | Next bool

text \<open>
  \<open>parse\<close> is \<open>JSON.parse\<close> (\<open>None\<close> when it throws) and \<open>stringify\<close> is
  \<open>JSON.stringify\<close>. \<open>if (cached)\<close> is false for a missing key and for the empty
  string. A hit answers with \<open>res.json\<close> on a fresh response object, whose status is 200.
\<close>

definition cacheMiddleware ::
  "(string \<Rightarrow> 'b option) \<Rightarrow> faults \<Rightarrow> nat \<Rightarrow> redis \<Rightarrow> string \<Rightarrow> nat \<Rightarrow> string
     \<Rightarrow> 'b middleware_result" where
  "cacheMiddleware parse f now r method userId originalUrl =
     (if method \<noteq> ''GET'' then Next False
      else case redis_get f now r (cache_key userId originalUrl) of
             Inl e \<Rightarrow> Next False
           | Inr None \<Rightarrow> Next True
           | Inr (Some cached) \<Rightarrow>
               if cached = [] then Next True
               else (case parse cached of
                       None \<Rightarrow> Next False
                     | Some v \<Rightarrow> Respond \<lparr>status = 200, body = v\<rparr>))"

text \<open>
  The wrapper installed on a miss: it stores the serialized body for \<open>duration\<close> seconds,
  whatever the status of the response, swallows a rejection of \<open>setEx\<close>
  (\<open>.catch(console.error)\<close>) and sends the response.
\<close>

definition caching_json ::
  "('b \<Rightarrow> string) \<Rightarrow> faults \<Rightarrow> nat \<Rightarrow> redis \<Rightarrow> string \<Rightarrow> int \<Rightarrow> 'b \<Rightarrow> redis" where
  "caching_json stringify f now r key duration d =
     (case redis_setEx f now r key duration (stringify d) of Inl e \<Rightarrow> r | Inr r' \<Rightarrow> r')"

text \<open>
  The route \<open>app.get('/', authenticateToken, cacheMiddleware(300), handler)\<close> for an
  authenticated user. \<open>h\<close> is the response the downstream handler produces for this
  request on the current database; it is consulted only when the middleware calls
  \<open>next()\<close>.
\<close>

definition get_notes_route ::
  "('b \<Rightarrow> string) \<Rightarrow> (string \<Rightarrow> 'b option) \<Rightarrow> faults \<Rightarrow> nat \<Rightarrow> redis \<Rightarrow> nat \<Rightarrow> string
     \<Rightarrow> 'b response \<Rightarrow> 'b response \<times> redis" where
  "get_notes_route stringify parse f now r userId originalUrl h =
     (case cacheMiddleware parse f now r ''GET'' userId originalUrl of
        Respond resp \<Rightarrow> (resp, r)
      | Next wrapped \<Rightarrow>
          if wrapped
          then (h, caching_json stringify f now r (cache_key userId originalUrl) 300 (body h))
          else (h, r))"

text \<open>\<open>clearUserCache\<close>: no \<open>try\<close> around it, so a rejection of \<open>keys\<close> or \<open>del\<close> propagates.\<close>

definition clear_pattern :: "faults \<Rightarrow> nat \<Rightarrow> redis \<Rightarrow> string \<Rightarrow> error + redis" where
  "clear_pattern f now r pattern =
     (case redis_keys f now r pattern of
        Inl e \<Rightarrow> Inl e
      | Inr ks \<Rightarrow> if length ks > 0 then redis_del f now r ks else Inr r)"

definition clearUserCache :: "faults \<Rightarrow> nat \<Rightarrow> redis \<Rightarrow> nat \<Rightarrow> error + redis" where
  "clearUserCache f now r userId =
     clear_pattern f now r (''cache:notes:'' @ string_of_nat userId @ '':*'')"

section \<open>Notes service: write routes\<close>

text \<open>
  The JSON body of a write. \<open>PUT\<close> hands the whole body to \<open>note.update\<close>, so every
  attribute of the model that the body names is assigned, \<open>userId\<close> included.
\<close>

record note_fields =
  f_title :: "string option"
  f_text :: "string option"
  f_tags :: "string list option"
  f_isPinned :: "bool option"
  f_isArchived :: "bool option"
  f_userId :: "nat option"

record notes_db =
  note_rows :: "Note list"
  notes_next_id :: nat

definition or_empty :: "string option \<Rightarrow> string" where
  "or_empty v = (case v of None \<Rightarrow> [] | Some s \<Rightarrow> s)"

definition valid_create_note :: "note_fields \<Rightarrow> bool" where
  "valid_create_note b =
     (1 \<le> length (trim (or_empty (f_title b))) \<and> length (trim (or_empty (f_title b))) \<le> 100
      \<and> 1 \<le> length (trim (or_empty (f_text b))))"

definition valid_update_note :: "note_fields \<Rightarrow> bool" where
  "valid_update_note b =
     ((case f_title b of None \<Rightarrow> True
        | Some t \<Rightarrow> 1 \<le> length (trim t) \<and> length (trim t) \<le> 100)
      \<and> (case f_text b of None \<Rightarrow> True | Some t \<Rightarrow> 1 \<le> length (trim t)))"

definition new_note :: "nat \<Rightarrow> nat \<Rightarrow> nat \<Rightarrow> note_fields \<Rightarrow> Note" where
  "new_note now nid userId b =
     \<lparr>note_id = nid, title = trim (or_empty (f_title b)), note_text = trim (or_empty (f_text b)),
      note_user_id = userId,
      tags = (case f_tags b of None \<Rightarrow> [] | Some ts \<Rightarrow> ts),
      is_pinned = (case f_isPinned b of None \<Rightarrow> False | Some p \<Rightarrow> p),
      is_archived = False, note_created_at = now, note_updated_at = now\<rparr>"

definition update_note :: "nat \<Rightarrow> note_fields \<Rightarrow> Note \<Rightarrow> Note" where
  "update_note now b n =
     n\<lparr>title := (case f_title b of None \<Rightarrow> title n | Some t \<Rightarrow> trim t),
       note_text := (case f_text b of None \<Rightarrow> note_text n | Some t \<Rightarrow> trim t),
       tags := (case f_tags b of None \<Rightarrow> tags n | Some ts \<Rightarrow> ts),
       is_pinned := (case f_isPinned b of None \<Rightarrow> is_pinned n | Some p \<Rightarrow> p),
       is_archived := (case f_isArchived b of None \<Rightarrow> is_archived n | Some a \<Rightarrow> a),
       note_user_id := (case f_userId b of None \<Rightarrow> note_user_id n | Some u \<Rightarrow> u),
       note_updated_at := now\<rparr>"

definition post_note ::
  "faults \<Rightarrow> nat \<Rightarrow> nat \<Rightarrow> note_fields \<Rightarrow> notes_db \<Rightarrow> redis
     \<Rightarrow> Note envelope response \<times> notes_db \<times> redis" where
  "post_note f now userId b db r =
     (if \<not> valid_create_note b then (reply 400 False ''Validation failed'' [], db, r)
      else if db_fails f 0 then (reply 500 False ''Failed to create note'' [], db, r)
      else
        let n = new_note now (notes_next_id db) userId b;
            db' = db\<lparr>note_rows := note_rows db @ [n], notes_next_id := Suc (notes_next_id db)\<rparr>
        in case clearUserCache f now r userId of
             Inl e \<Rightarrow> (reply 500 False ''Failed to create note'' [], db', r)
           | Inr r' \<Rightarrow> (reply 201 True ''Note created successfully'' [n], db', r'))"

definition put_note ::
  "faults \<Rightarrow> nat \<Rightarrow> nat \<Rightarrow> nat \<Rightarrow> note_fields \<Rightarrow> notes_db \<Rightarrow> redis
     \<Rightarrow> Note envelope response \<times> notes_db \<times> redis" where
  "put_note f now userId nid b db r =
     (if \<not> valid_update_note b then (reply 400 False ''Validation failed'' [], db, r)
      else if db_fails f 0 then (reply 500 False ''Failed to update note'' [], db, r)
      else case find (\<lambda>n. note_id n = nid \<and> note_user_id n = userId) (note_rows db) of
             None \<Rightarrow> (reply 404 False ''Note not found'' [], db, r)
           | Some n \<Rightarrow>
               if db_fails f 1 then (reply 500 False ''Failed to update note'' [], db, r)
               else
                 let n' = update_note now b n;
                     db' = db\<lparr>note_rows := map (\<lambda>x. if note_id x = note_id n then n' else x) (note_rows db)\<rparr>
                 in case clearUserCache f now r userId of
                      Inl e \<Rightarrow> (reply 500 False ''Failed to update note'' [], db', r)
                    | Inr r' \<Rightarrow> (reply 200 True ''Note updated successfully'' [n'], db', r'))"

definition delete_note ::
  "faults \<Rightarrow> nat \<Rightarrow> nat \<Rightarrow> nat \<Rightarrow> notes_db \<Rightarrow> redis
     \<Rightarrow> Note envelope response \<times> notes_db \<times> redis" where
  "delete_note f now userId nid db r =
     (if db_fails f 0 then (reply 500 False ''Failed to delete note'' [], db, r)
      else case find (\<lambda>n. note_id n = nid \<and> note_user_id n = userId) (note_rows db) of
             None \<Rightarrow> (reply 404 False ''Note not found'' [], db, r)
           | Some n \<Rightarrow>
               if db_fails f 1 then (reply 500 False ''Failed to delete note'' [], db, r)
               else
                 let db' = db\<lparr>note_rows := filter (\<lambda>x. note_id x \<noteq> note_id n) (note_rows db)\<rparr>
                 in case clearUserCache f now r userId of
                      Inl e \<Rightarrow> (reply 500 False ''Failed to delete note'' [], db', r)
                    | Inr r' \<Rightarrow> (reply 200 True ''Note deleted successfully'' [], db', r'))"

datatype note_write = CreateNote note_fields | UpdateNote nat note_fields | DeleteNote nat

definition notes_write ::
  "faults \<Rightarrow> nat \<Rightarrow> nat \<Rightarrow> note_write \<Rightarrow> notes_db \<Rightarrow> redis
     \<Rightarrow> Note envelope response \<times> notes_db \<times> redis" where
  "notes_write f now userId w db r =
     (case w of
        CreateNote b \<Rightarrow> post_note f now userId b db r
      | UpdateNote nid b \<Rightarrow> put_note f now userId nid b db r
      | DeleteNote nid \<Rightarrow> delete_note f now userId nid db r)"

section \<open>API gateway: cached notes listing\<close>

text \<open>
  The hybrid gateway caches \<open>GET /api/notes\<close> inside the handler. The query parameters
  are read with destructuring defaults (\<open>page = 1\<close>, \<open>limit = 50\<close>, \<open>archived = false\<close>),
  which apply to an absent parameter only, and the key is the template
  \<open>notes:${req.user.id}:${page}:${limit}:${search || ''}:${archived}:${pinned || ''}\<close>.
\<close>

record notes_query =
  q_page :: "string option"
  q_limit :: "string option"
  q_search :: "string option"
  q_archived :: "string option"
  q_pinned :: "string option"

definition or_default :: "string \<Rightarrow> string option \<Rightarrow> string" where
  "or_default d v = (case v of None \<Rightarrow> d | Some s \<Rightarrow> s)"

definition gateway_cacheKey :: "nat \<Rightarrow> notes_query \<Rightarrow> string" where
  "gateway_cacheKey userId q =
     ''notes:'' @ string_of_nat userId @ '':'' @ or_default ''1'' (q_page q) @ '':''
       @ or_default ''50'' (q_limit q) @ '':'' @ or_empty (q_search q) @ '':''
       @ or_default ''false'' (q_archived q) @ '':'' @ or_empty (q_pinned q)"

text \<open>
  The request sent to the notes gRPC service on a miss. \<open>parseInt\<close> is JavaScript's
  (\<open>None\<close> for \<open>NaN\<close>); the default numbers pass through it unchanged.
\<close>

record getNotes_request =
  g_user_id :: nat
  g_page :: "int option"
  g_limit :: "int option"
  g_archived :: bool
  g_pinned :: "bool option"

definition getNotes_request_of ::
  "(string \<Rightarrow> int option) \<Rightarrow> nat \<Rightarrow> notes_query \<Rightarrow> getNotes_request" where
  "getNotes_request_of parseInt userId q =
     \<lparr>g_user_id = userId,
      g_page = (case q_page q of None \<Rightarrow> Some 1 | Some p \<Rightarrow> parseInt p),
      g_limit = (case q_limit q of None \<Rightarrow> Some 50 | Some l \<Rightarrow> parseInt l),
      g_archived = (q_archived q = Some ''true''),
      g_pinned = (case q_pinned q of None \<Rightarrow> None | Some p \<Rightarrow> Some (p = ''true''))\<rparr>"

datatype 'b gateway_body = Failure string | Payload 'b

text \<open>
  \<open>getNotes\<close> is the gRPC call, giving the result object the handler builds from the
  service's answer, or an error. Every \<open>await\<close> stands inside one \<open>try\<close> whose
  \<open>catch\<close> answers 500.
\<close>

definition gateway_get_notes ::
  "(string \<Rightarrow> int option) \<Rightarrow> (getNotes_request \<Rightarrow> error + 'b) \<Rightarrow> ('b \<Rightarrow> string)
     \<Rightarrow> (string \<Rightarrow> 'b option) \<Rightarrow> faults \<Rightarrow> nat \<Rightarrow> redis \<Rightarrow> nat \<Rightarrow> notes_query
     \<Rightarrow> 'b gateway_body response \<times> redis" where
  "gateway_get_notes parseInt getNotes stringify parse f now r userId q =
     (let cacheKey = gateway_cacheKey userId q;
          failed = \<lparr>status = 500, body = Failure ''Failed to retrieve notes''\<rparr>
      in case redis_get f now r cacheKey of
           Inl e \<Rightarrow> (failed, r)
         | Inr cached \<Rightarrow>
             if cached \<noteq> None \<and> cached \<noteq> Some []
             then (case parse (the cached) of
                     None \<Rightarrow> (failed, r)
                   | Some v \<Rightarrow> (\<lparr>status = 200, body = Payload v\<rparr>, r))
             else (case getNotes (getNotes_request_of parseInt userId q) of
                     Inl e \<Rightarrow> (failed, r)
                   | Inr result \<Rightarrow>
                       (case redis_setEx f now r cacheKey 300 (stringify result) of
                          Inl e \<Rightarrow> (failed, r)
                        | Inr r' \<Rightarrow> (\<lparr>status = 200, body = Payload result\<rparr>, r'))))"

text \<open>
  \<open>POST /api/notes\<close> of the gateway: \<open>createNote\<close> is the answer of the gRPC call
  (its \<open>success\<close> flag, its message and the note); on success the keys
  \<open>notes:${req.user.id}:*\<close> are deleted before the 201.
\<close>

definition gateway_post_note ::
  "(error + bool \<times> string \<times> 'n) \<Rightarrow> faults \<Rightarrow> nat \<Rightarrow> redis \<Rightarrow> nat
     \<Rightarrow> 'n gateway_body response \<times> redis" where
  "gateway_post_note createNote f now r userId =
     (let failed = \<lparr>status = 500, body = Failure ''Failed to create note''\<rparr>
      in case createNote of
           Inl e \<Rightarrow> (failed, r)
         | Inr (ok, msg, n) \<Rightarrow>
             if ok
             then (case clear_pattern f now r (''notes:'' @ string_of_nat userId @ '':*'') of
                     Inl e \<Rightarrow> (failed, r)
                   | Inr r' \<Rightarrow> (\<lparr>status = 201, body = Payload n\<rparr>, r'))
             else (\<lparr>status = 400, body = Failure msg\<rparr>, r))"

section \<open>Auth service: tokens, refresh, logout, verify\<close>

text \<open>
  The libraries the auth code calls are parameters of the model: \<open>bcrypt.hash\<close> and
  \<open>bcrypt.compare\<close>, \<open>jwt.sign\<close> with the service's secret, and \<open>jwt_decode\<close>, the
  signature check and payload parse of \<open>jwt.verify\<close> (\<open>None\<close> when the token is
  malformed or not signed with the secret). \<open>jwt.verify\<close> then rejects a token whose
  \<open>exp\<close> is not after the current second.
\<close>

record jwt_payload =
  jwt_id :: nat
  jwt_type :: "string option"
  jwt_iat :: nat
  jwt_exp :: nat

record crypto =
  bcrypt_hash :: "string \<Rightarrow> string"
  bcrypt_compare :: "string \<Rightarrow> string \<Rightarrow> bool"
  jwt_sign :: "jwt_payload \<Rightarrow> string"
  jwt_decode :: "string \<Rightarrow> jwt_payload option"

definition jwt_verify :: "crypto \<Rightarrow> nat \<Rightarrow> string \<Rightarrow> error + jwt_payload" where
  "jwt_verify cr now t =
     (case jwt_decode cr t of
        None \<Rightarrow> Inl JwtError
      | Some p \<Rightarrow> if jwt_exp p \<le> now then Inl JwtError else Inr p)"

text \<open>\<open>expiresIn\<close> is \<open>7d\<close> for an access token (\<open>JWT_EXPIRES_IN\<close> unset) and \<open>30d\<close> for a refresh token.\<close>

definition generateToken :: "crypto \<Rightarrow> nat \<Rightarrow> nat \<Rightarrow> string" where
  "generateToken cr now userId =
     jwt_sign cr \<lparr>jwt_id = userId, jwt_type = None, jwt_iat = now,
                  jwt_exp = now + 7 * 24 * 60 * 60\<rparr>"

definition generateRefreshToken :: "crypto \<Rightarrow> nat \<Rightarrow> nat \<Rightarrow> string" where
  "generateRefreshToken cr now userId =
     jwt_sign cr \<lparr>jwt_id = userId, jwt_type = Some ''refresh'', jwt_iat = now,
                  jwt_exp = now + 30 * 24 * 60 * 60\<rparr>"

record User =
  user_id :: nat
  name :: string
  email :: string
  username :: string
  password :: string
  user_created_at :: nat
  user_updated_at :: nat

text \<open>A JSON object as its list of keys and (rendered) values.\<close>

type_synonym json_object = "(string \<times> string) list"

definition User_get :: "User \<Rightarrow> json_object" where
  "User_get u =
     [(''id'', string_of_nat (user_id u)), (''name'', name u), (''email'', email u),
      (''username'', username u), (''password'', password u),
      (''createdAt'', string_of_nat (user_created_at u)),
      (''updatedAt'', string_of_nat (user_updated_at u))]"

definition without_password :: "json_object \<Rightarrow> json_object" where
  "without_password obj = filter (\<lambda>(k, v). k \<noteq> ''password'') obj"

definition to_lower_char :: "char \<Rightarrow> char" where
  "to_lower_char c =
     (let n = (of_char c :: nat) in if 65 \<le> n \<and> n \<le> 90 then char_of (n + 32) else c)"

definition toLowerCase :: "string \<Rightarrow> string" where
  "toLowerCase s = map to_lower_char s"

text \<open>
  An entry of the \<open>errors\<close> array of a 400. The entries of express-validator's
  \<open>errors.array()\<close> name the field and the message of the validator that failed and
  carry the value it rejected (no value when the body does not name the field). The entries
  the monolith builds from a Sequelize validation error carry field and message only.
\<close>

record validation_error =
  ve_field :: string
  ve_msg :: string
  ve_value :: "string option"

record auth_body =
  a_success :: bool
  a_message :: string
  a_user :: "json_object option"
  a_accessToken :: "string option"
  a_refreshToken :: "string option"
  a_errors :: "validation_error list"

definition auth_reply :: "nat \<Rightarrow> bool \<Rightarrow> string \<Rightarrow> auth_body response" where
  "auth_reply st ok msg =
     \<lparr>status = st, body = \<lparr>a_success = ok, a_message = msg, a_user = None,
                             a_accessToken = None, a_refreshToken = None, a_errors = []\<rparr>\<rparr>"

definition auth_errors :: "nat \<Rightarrow> string \<Rightarrow> validation_error list \<Rightarrow> auth_body response" where
  "auth_errors st msg es =
     \<lparr>status = st, body = \<lparr>a_success = False, a_message = msg, a_user = None,
                             a_accessToken = None, a_refreshToken = None, a_errors = es\<rparr>\<rparr>"

text \<open>\<open>notEmpty()\<close> on a body field: an absent field is checked as the empty string.\<close>

definition required_error :: "string \<Rightarrow> string \<Rightarrow> string option \<Rightarrow> validation_error list" where
  "required_error field msg v =
     (if or_empty v = [] then [\<lparr>ve_field = field, ve_msg = msg, ve_value = v\<rparr>] else [])"

definition refresh_key :: "nat \<Rightarrow> string" where
  "refresh_key userId = ''refresh_token:'' @ string_of_nat userId"

definition blacklist_key :: "string \<Rightarrow> string" where
  "blacklist_key token = ''blacklist:'' @ token"

text \<open>\<open>POST /login\<close>. Statement 0 is \<open>User.findOne\<close>.\<close>

definition auth_login ::
  "crypto \<Rightarrow> faults \<Rightarrow> nat \<Rightarrow> User list \<Rightarrow> redis \<Rightarrow> string option \<Rightarrow> string option
     \<Rightarrow> auth_body response \<times> redis" where
  "auth_login cr f now users r uname pw =
     (if or_empty uname = [] \<or> or_empty pw = []
      then (auth_errors 400 ''Validation failed''
              (required_error ''username'' ''Invalid value'' uname
                 @ required_error ''password'' ''Invalid value'' pw), r)
      else if db_fails f 0 then (auth_reply 500 False ''Login failed'', r)
      else case find (\<lambda>u. username u = or_empty uname \<or> email u = toLowerCase (or_empty uname)) users of
             None \<Rightarrow> (auth_reply 400 False ''Invalid credentials'', r)
           | Some u \<Rightarrow>
               if \<not> bcrypt_compare cr (or_empty pw) (password u)
               then (auth_reply 400 False ''Invalid credentials'', r)
               else
                 let accessToken = generateToken cr now (user_id u);
                     refreshToken = generateRefreshToken cr now (user_id u)
                 in case redis_setEx f now r (refresh_key (user_id u)) (30 * 24 * 60 * 60) refreshToken of
                      Inl e \<Rightarrow> (auth_reply 500 False ''Login failed'', r)
                    | Inr r' \<Rightarrow>
                        (\<lparr>status = 200,
                          body = \<lparr>a_success = True, a_message = ''Login successful'',
                                  a_user = Some (without_password (User_get u)),
                                  a_accessToken = Some accessToken,
                                  a_refreshToken = Some refreshToken, a_errors = []\<rparr>\<rparr>, r'))"

text \<open>
  \<open>POST /refresh\<close>. \<open>!refreshToken\<close> holds for an absent token and for the empty string;
  every exception ends in the \<open>catch\<close> that answers 403.
\<close>

definition auth_refresh ::
  "crypto \<Rightarrow> faults \<Rightarrow> nat \<Rightarrow> redis \<Rightarrow> string option \<Rightarrow> auth_body response" where
  "auth_refresh cr f now r refreshToken =
     (if or_empty refreshToken = [] then auth_reply 401 False ''Refresh token required''
      else case jwt_verify cr now (or_empty refreshToken) of
             Inl e \<Rightarrow> auth_reply 403 False ''Invalid refresh token''
           | Inr decoded \<Rightarrow>
               (case redis_get f now r (refresh_key (jwt_id decoded)) of
                  Inl e \<Rightarrow> auth_reply 403 False ''Invalid refresh token''
                | Inr storedToken \<Rightarrow>
                    if or_empty storedToken = [] \<or> storedToken \<noteq> refreshToken
                    then auth_reply 403 False ''Invalid refresh token''
                    else \<lparr>status = 200,
                          body = \<lparr>a_success = True, a_message = [], a_user = None,
                                  a_accessToken = Some (generateToken cr now (jwt_id decoded)),
                                  a_refreshToken = None, a_errors = []\<rparr>\<rparr>))"

text \<open>
  \<open>POST /logout\<close>: one \<open>try\<close> around both steps, and the same answer from the
  \<open>catch\<close>. \<open>logout_refresh_step\<close> is the first \<open>if\<close>; an exception in it skips the
  second.
\<close>

definition logout_refresh_step ::
  "crypto \<Rightarrow> faults \<Rightarrow> nat \<Rightarrow> redis \<Rightarrow> string option \<Rightarrow> error + redis" where
  "logout_refresh_step cr f now r refreshToken =
     (if or_empty refreshToken = [] then Inr r
      else case jwt_verify cr now (or_empty refreshToken) of
             Inl e \<Rightarrow> Inl e
           | Inr decoded \<Rightarrow> redis_del f now r [refresh_key (jwt_id decoded)])"

definition auth_logout ::
  "crypto \<Rightarrow> faults \<Rightarrow> nat \<Rightarrow> redis \<Rightarrow> string option \<Rightarrow> string option
     \<Rightarrow> auth_body response \<times> redis" where
  "auth_logout cr f now r refreshToken accessToken =
     (let done = auth_reply 200 True ''Logout successful''
      in case logout_refresh_step cr f now r refreshToken of
           Inl e \<Rightarrow> (done, r)
         | Inr r1 \<Rightarrow>
             if or_empty accessToken = [] then (done, r1)
             else (case jwt_verify cr now (or_empty accessToken) of
                     Inl e \<Rightarrow> (done, r1)
                   | Inr decoded \<Rightarrow>
                       (case redis_setEx f now r1 (blacklist_key (or_empty accessToken))
                               (int (jwt_exp decoded) - int now) ''revoked'' of
                          Inl e \<Rightarrow> (done, r1)
                        | Inr r2 \<Rightarrow> (done, r2))))"

text \<open>\<open>POST /verify\<close>. Statement 0 is \<open>User.findByPk\<close>.\<close>

definition auth_verify ::
  "crypto \<Rightarrow> faults \<Rightarrow> nat \<Rightarrow> User list \<Rightarrow> redis \<Rightarrow> string \<Rightarrow> auth_body response" where
  "auth_verify cr f now users r token =
     (case redis_get f now r (blacklist_key token) of
        Inl e \<Rightarrow> auth_reply 401 False ''Invalid token''
      | Inr blacklisted \<Rightarrow>
          if or_empty blacklisted \<noteq> [] then auth_reply 401 False ''Token revoked''
          else (case jwt_verify cr now token of
                  Inl e \<Rightarrow> auth_reply 401 False ''Invalid token''
                | Inr decoded \<Rightarrow>
                    if db_fails f 0 then auth_reply 401 False ''Invalid token''
                    else (case find (\<lambda>u. user_id u = jwt_id decoded) users of
                            None \<Rightarrow> auth_reply 401 False ''User not found''
                          | Some u \<Rightarrow>
                              \<lparr>status = 200,
                               body = \<lparr>a_success = True, a_message = [],
                                       a_user = Some [(''id'', string_of_nat (user_id u)),
                                                      (''name'', name u), (''email'', email u),
                                                      (''username'', username u)],
                                       a_accessToken = None, a_refreshToken = None, a_errors = []\<rparr>\<rparr>)))"

section \<open>Monolith: JavaScript values and library parameters\<close>

text \<open>
  The monolith's routes run raw SQL and turn body fields into column values with
  \<open>x ? 1 : 0\<close>, so the JavaScript truthiness of the JSON value decides. The operators of
  the database and the validators of express-validator that the routes only call are
  parameters: SQL \<open>LIKE\<close> (pattern first), \<open>isISO8601\<close>, \<open>isEmail\<close> and
  \<open>normalizeEmail\<close>.
\<close>

datatype jsval = JBool bool | JNum int | JStr string | JNull

fun truthy :: "jsval \<Rightarrow> bool" where
  "truthy (JBool b) = b"
| "truthy (JNum n) = (n \<noteq> 0)"
| "truthy (JStr s) = (s \<noteq> [])"
| "truthy JNull = False"

text \<open>\<open>isBoolean()\<close> renders the value as a string and accepts \<open>true\<close>, \<open>false\<close>, \<open>1\<close>, \<open>0\<close>.\<close>

fun isBoolean :: "jsval \<Rightarrow> bool" where
  "isBoolean (JBool b) = True"
| "isBoolean (JNum n) = (n = 0 \<or> n = 1)"
| "isBoolean (JStr s) = (s = ''true'' \<or> s = ''false'' \<or> s = ''1'' \<or> s = ''0'')"
| "isBoolean JNull = False"

record library =
  sql_like :: "string \<Rightarrow> string \<Rightarrow> bool"
  isISO8601 :: "string \<Rightarrow> bool"
  isEmail :: "string \<Rightarrow> bool"
  normalizeEmail :: "string \<Rightarrow> string"

definition or_null :: "string option \<Rightarrow> string option" where
  "or_null v = (case v of None \<Rightarrow> None | Some s \<Rightarrow> if s = [] then None else Some s)"

section \<open>Monolith: notes routes\<close>

text \<open>
  Every route runs behind the \<open>auth\<close> middleware; \<open>userId\<close> is \<open>req.user.id\<close> and
  \<open>nid\<close> is \<open>req.params.id\<close> as the database compares it with the \<open>id\<close> column.
  The statements a route executes are numbered from 0; a statement that throws sends the
  route to its \<open>catch\<close> (500), with the statements before it already applied.
\<close>

record note_body =
  nb_title :: "string option"
  nb_text :: "string option"
  nb_tags :: "string list option"
  nb_isPinned :: "jsval option"
  nb_isArchived :: "jsval option"

record list_query =
  lq_page :: "int option"
  lq_limit :: "int option"
  lq_search :: "string option"
  lq_archived :: "string option"
  lq_pinned :: "string option"

definition valid_tags :: "string list option \<Rightarrow> bool" where
  "valid_tags ts = (case ts of None \<Rightarrow> True | Some l \<Rightarrow> list_all (\<lambda>t. length t \<le> 20) l)"

definition valid_note_post :: "note_body \<Rightarrow> bool" where
  "valid_note_post b =
     (1 \<le> length (trim (or_empty (nb_title b))) \<and> length (trim (or_empty (nb_title b))) \<le> 100
      \<and> 1 \<le> length (trim (or_empty (nb_text b))) \<and> length (trim (or_empty (nb_text b))) \<le> 5000
      \<and> valid_tags (nb_tags b))"

definition valid_note_put :: "note_body \<Rightarrow> bool" where
  "valid_note_put b =
     ((case nb_title b of None \<Rightarrow> True
        | Some t \<Rightarrow> 1 \<le> length (trim t) \<and> length (trim t) \<le> 100)
      \<and> (case nb_text b of None \<Rightarrow> True
          | Some t \<Rightarrow> 1 \<le> length (trim t) \<and> length (trim t) \<le> 5000)
      \<and> valid_tags (nb_tags b))"

text \<open>\<open>ORDER BY is_pinned DESC, created_at DESC\<close>; rows that tie keep their table order.\<close>

definition order_notes :: "Note list \<Rightarrow> Note list" where
  "order_notes ns =
     sort_key (\<lambda>n. if is_pinned n then (0::nat) else 1) (sort_key (\<lambda>n. - int (note_created_at n)) ns)"

definition notes_where :: "library \<Rightarrow> nat \<Rightarrow> list_query \<Rightarrow> Note \<Rightarrow> bool" where
  "notes_where lib userId q n =
     (note_user_id n = userId
      \<and> is_archived n = (lq_archived q = Some ''true'')
      \<and> (case lq_pinned q of None \<Rightarrow> True | Some p \<Rightarrow> is_pinned n = (p = ''true''))
      \<and> (if or_empty (lq_search q) = [] then True
          else sql_like lib (''%'' @ or_empty (lq_search q) @ ''%'') (title n)
               \<or> sql_like lib (''%'' @ or_empty (lq_search q) @ ''%'') (note_text n)))"

text \<open>
  \<open>GET /api/notes\<close>: the page query (statement 0), which MySQL rejects for a negative
  \<open>LIMIT\<close> or \<open>OFFSET\<close>, and the count query (statement 1). \<open>lq_page\<close> and \<open>lq_limit\<close>
  are the parameters after \<open>parseInt\<close>.
\<close>

definition list_notes ::
  "library \<Rightarrow> faults \<Rightarrow> nat \<Rightarrow> list_query \<Rightarrow> notes_db \<Rightarrow> Note envelope response" where
  "list_notes lib f userId q db =
     (let limit = (case lq_limit q of None \<Rightarrow> 20 | Some l \<Rightarrow> l);
          page = (case lq_page q of None \<Rightarrow> 1 | Some p \<Rightarrow> p);
          offset = (page - 1) * limit;
          matching = filter (notes_where lib userId q) (note_rows db)
      in if db_fails f 0 \<or> limit < 0 \<or> offset < 0 \<or> db_fails f 1
         then reply 500 False ''Server error while fetching notes'' []
         else reply_page (take (nat limit) (drop (nat offset) (order_notes matching)))
                [length matching])"

definition get_note :: "faults \<Rightarrow> nat \<Rightarrow> nat \<Rightarrow> notes_db \<Rightarrow> Note envelope response" where
  "get_note f userId nid db =
     (if db_fails f 0 then reply 500 False ''Server error while fetching note'' []
      else case filter (\<lambda>n. note_id n = nid \<and> note_user_id n = userId) (note_rows db) of
             [] \<Rightarrow> reply 404 False ''Note not found'' []
           | n # ns \<Rightarrow> reply 200 True [] [n])"

text \<open>
  The routes that write re-read the row with \<open>SELECT * FROM notes WHERE id = ?\<close> and
  answer with \<open>notes[0]\<close>; on an empty result the property access throws.
\<close>

definition reselect_note ::
  "nat \<Rightarrow> string \<Rightarrow> string \<Rightarrow> nat \<Rightarrow> notes_db \<Rightarrow> Note envelope response" where
  "reselect_note st msg failure nid db =
     (case filter (\<lambda>n. note_id n = nid) (note_rows db) of
        [] \<Rightarrow> reply 500 False failure []
      | n # ns \<Rightarrow> reply st True msg [n])"

definition insert_note :: "nat \<Rightarrow> nat \<Rightarrow> note_body \<Rightarrow> notes_db \<Rightarrow> notes_db" where
  "insert_note now userId b db =
     db\<lparr>note_rows := note_rows db @
           [\<lparr>note_id = notes_next_id db, title = trim (or_empty (nb_title b)),
             note_text = trim (or_empty (nb_text b)), note_user_id = userId,
             tags = (case nb_tags b of None \<Rightarrow> [] | Some ts \<Rightarrow> ts),
             is_pinned = (case nb_isPinned b of None \<Rightarrow> False | Some v \<Rightarrow> truthy v),
             is_archived = False, note_created_at = now, note_updated_at = now\<rparr>],
        notes_next_id := Suc (notes_next_id db)\<rparr>"

definition create_note ::
  "faults \<Rightarrow> nat \<Rightarrow> nat \<Rightarrow> note_body \<Rightarrow> notes_db \<Rightarrow> Note envelope response \<times> notes_db" where
  "create_note f now userId b db =
     (if \<not> valid_note_post b then (reply 400 False ''Validation failed'' [], db)
      else if db_fails f 0 then (reply 500 False ''Server error while creating note'' [], db)
      else if db_fails f 1
      then (reply 500 False ''Server error while creating note'' [], insert_note now userId b db)
      else (reselect_note 201 ''Note created successfully'' ''Server error while creating note''
              (notes_next_id db) (insert_note now userId b db),
            insert_note now userId b db))"

definition set_note_fields :: "nat \<Rightarrow> note_body \<Rightarrow> Note \<Rightarrow> Note" where
  "set_note_fields now b n =
     n\<lparr>title := (case nb_title b of None \<Rightarrow> title n | Some t \<Rightarrow> trim t),
       note_text := (case nb_text b of None \<Rightarrow> note_text n | Some t \<Rightarrow> trim t),
       tags := (case nb_tags b of None \<Rightarrow> tags n | Some ts \<Rightarrow> ts),
       is_pinned := (case nb_isPinned b of None \<Rightarrow> is_pinned n | Some v \<Rightarrow> truthy v),
       is_archived := (case nb_isArchived b of None \<Rightarrow> is_archived n | Some v \<Rightarrow> truthy v),
       note_updated_at := now\<rparr>"

definition update_notes_where :: "(Note \<Rightarrow> bool) \<Rightarrow> (Note \<Rightarrow> Note) \<Rightarrow> notes_db \<Rightarrow> notes_db" where
  "update_notes_where cond upd db = db\<lparr>note_rows := map (\<lambda>n. if cond n then upd n else n) (note_rows db)\<rparr>"

definition put_note_mono ::
  "faults \<Rightarrow> nat \<Rightarrow> nat \<Rightarrow> nat \<Rightarrow> note_body \<Rightarrow> notes_db \<Rightarrow> Note envelope response \<times> notes_db" where
  "put_note_mono f now userId nid b db =
     (if \<not> valid_note_put b then (reply 400 False ''Validation failed'' [], db)
      else if db_fails f 0 then (reply 500 False ''Server error while updating note'' [], db)
      else if filter (\<lambda>n. note_id n = nid \<and> note_user_id n = userId) (note_rows db) = []
      then (reply 404 False ''Note not found'' [], db)
      else if db_fails f 1 then (reply 500 False ''Server error while updating note'' [], db)
      else
        let db' = update_notes_where (\<lambda>n. note_id n = nid \<and> note_user_id n = userId)
                    (set_note_fields now b) db
        in if db_fails f 2 then (reply 500 False ''Server error while updating note'' [], db')
           else (reselect_note 200 ''Note updated successfully''
                   ''Server error while updating note'' nid db', db'))"

definition delete_note_mono ::
  "faults \<Rightarrow> nat \<Rightarrow> nat \<Rightarrow> notes_db \<Rightarrow> Note envelope response \<times> notes_db" where
  "delete_note_mono f userId nid db =
     (if db_fails f 0 then (reply 500 False ''Server error while deleting note'' [], db)
      else if filter (\<lambda>n. note_id n = nid \<and> note_user_id n = userId) (note_rows db) = []
      then (reply 404 False ''Note not found'' [], db)
      else (reply 200 True ''Note deleted successfully'' [],
            db\<lparr>note_rows := filter (\<lambda>n. \<not> (note_id n = nid \<and> note_user_id n = userId)) (note_rows db)\<rparr>))"

text \<open>\<open>PATCH /api/notes/:id/pin\<close>: the ownership query, then \<open>UPDATE ... WHERE id = ?\<close>.\<close>

definition pin_note ::
  "faults \<Rightarrow> nat \<Rightarrow> nat \<Rightarrow> nat \<Rightarrow> notes_db \<Rightarrow> Note envelope response \<times> notes_db" where
  "pin_note f now userId nid db =
     (if db_fails f 0 then (reply 500 False ''Server error while toggling pin status'' [], db)
      else case filter (\<lambda>n. note_id n = nid \<and> note_user_id n = userId) (note_rows db) of
             [] \<Rightarrow> (reply 404 False ''Note not found'' [], db)
           | n # ns \<Rightarrow>
               if db_fails f 1 then (reply 500 False ''Server error while toggling pin status'' [], db)
               else
                 let db' = update_notes_where (\<lambda>x. note_id x = nid)
                             (\<lambda>x. x\<lparr>is_pinned := \<not> is_pinned n, note_updated_at := now\<rparr>) db
                 in if db_fails f 2
                    then (reply 500 False ''Server error while toggling pin status'' [], db')
                    else (reselect_note 200
                            (if \<not> is_pinned n then ''Note pinned successfully''
                             else ''Note unpinned successfully'')
                            ''Server error while toggling pin status'' nid db', db'))"

datatype note_request =
    ListNotes list_query
  | GetNote nat
  | PostNote note_body
  | PutNote nat note_body
  | DeleteNoteById nat
  | PinNote nat

definition notes_router ::
  "library \<Rightarrow> faults \<Rightarrow> nat \<Rightarrow> nat \<Rightarrow> note_request \<Rightarrow> notes_db
     \<Rightarrow> Note envelope response \<times> notes_db" where
  "notes_router lib f now userId req db =
     (case req of
        ListNotes q \<Rightarrow> (list_notes lib f userId q db, db)
      | GetNote nid \<Rightarrow> (get_note f userId nid db, db)
      | PostNote b \<Rightarrow> create_note f now userId b db
      | PutNote nid b \<Rightarrow> put_note_mono f now userId nid b db
      | DeleteNoteById nid \<Rightarrow> delete_note_mono f userId nid db
      | PinNote nid \<Rightarrow> pin_note f now userId nid db)"

section \<open>Monolith: todos routes\<close>

record Todo =
  todo_id :: nat
  todo_text :: string
  completed :: bool
  todo_user_id :: nat
  priority :: string
  due_date :: "string option"
  category :: "string option"
  completed_at :: "nat option"
  todo_created_at :: nat
  todo_updated_at :: nat

record todos_db =
  todo_rows :: "Todo list"
  todos_next_id :: nat

record todo_body =
  tb_text :: "string option"
  tb_priority :: "string option"
  tb_category :: "string option"
  tb_dueDate :: "string option"
  tb_completed :: "jsval option"

record todo_query =
  tq_page :: "int option"
  tq_limit :: "int option"
  tq_completed :: "string option"
  tq_priority :: "string option"
  tq_category :: "string option"

definition valid_priority :: "string option \<Rightarrow> bool" where
  "valid_priority v =
     (case v of None \<Rightarrow> True | Some p \<Rightarrow> p = ''low'' \<or> p = ''medium'' \<or> p = ''high'')"

definition valid_category :: "string option \<Rightarrow> bool" where
  "valid_category v = (case v of None \<Rightarrow> True | Some c \<Rightarrow> length (trim c) \<le> 30)"

definition valid_dueDate :: "library \<Rightarrow> string option \<Rightarrow> bool" where
  "valid_dueDate lib v = (case v of None \<Rightarrow> True | Some d \<Rightarrow> isISO8601 lib d)"

definition valid_todo_post :: "library \<Rightarrow> todo_body \<Rightarrow> bool" where
  "valid_todo_post lib b =
     (1 \<le> length (trim (or_empty (tb_text b))) \<and> length (trim (or_empty (tb_text b))) \<le> 200
      \<and> valid_priority (tb_priority b) \<and> valid_category (tb_category b)
      \<and> valid_dueDate lib (tb_dueDate b))"

definition valid_todo_put :: "library \<Rightarrow> todo_body \<Rightarrow> bool" where
  "valid_todo_put lib b =
     ((case tb_text b of None \<Rightarrow> True
        | Some t \<Rightarrow> 1 \<le> length (trim t) \<and> length (trim t) \<le> 200)
      \<and> valid_priority (tb_priority b) \<and> valid_category (tb_category b)
      \<and> valid_dueDate lib (tb_dueDate b)
      \<and> (case tb_completed b of None \<Rightarrow> True | Some v \<Rightarrow> isBoolean v))"

text \<open>\<open>ORDER BY completed ASC, created_at DESC\<close>.\<close>

definition order_todos :: "Todo list \<Rightarrow> Todo list" where
  "order_todos ts =
     sort_key (\<lambda>t. if completed t then (1::nat) else 0) (sort_key (\<lambda>t. - int (todo_created_at t)) ts)"

definition todos_where :: "nat \<Rightarrow> todo_query \<Rightarrow> Todo \<Rightarrow> bool" where
  "todos_where userId q t =
     (todo_user_id t = userId
      \<and> (case tq_completed q of None \<Rightarrow> True | Some c \<Rightarrow> completed t = (c = ''true''))
      \<and> (if or_empty (tq_priority q) = [] then True else priority t = or_empty (tq_priority q))
      \<and> (if or_empty (tq_category q) = [] then True
          else category t = Some (or_empty (tq_category q))))"

text \<open>
  \<open>GET /api/todos\<close>: the page query, the count query and the statistics query
  (total, completed and pending todos of the user), statements 0 to 2.
\<close>

definition list_todos ::
  "faults \<Rightarrow> nat \<Rightarrow> todo_query \<Rightarrow> todos_db \<Rightarrow> Todo envelope response" where
  "list_todos f userId q db =
     (let limit = (case tq_limit q of None \<Rightarrow> 50 | Some l \<Rightarrow> l);
          page = (case tq_page q of None \<Rightarrow> 1 | Some p \<Rightarrow> p);
          offset = (page - 1) * limit;
          matching = filter (todos_where userId q) (todo_rows db);
          mine = filter (\<lambda>t. todo_user_id t = userId) (todo_rows db)
      in if db_fails f 0 \<or> limit < 0 \<or> offset < 0 \<or> db_fails f 1 \<or> db_fails f 2
         then reply 500 False ''Server error while fetching todos'' []
         else reply_page (take (nat limit) (drop (nat offset) (order_todos matching)))
                [length matching, length mine, length (filter completed mine),
                 length (filter (\<lambda>t. \<not> completed t) mine)])"

definition get_todo :: "faults \<Rightarrow> nat \<Rightarrow> nat \<Rightarrow> todos_db \<Rightarrow> Todo envelope response" where
  "get_todo f userId tid db =
     (if db_fails f 0 then reply 500 False ''Server error while fetching todo'' []
      else case filter (\<lambda>t. todo_id t = tid \<and> todo_user_id t = userId) (todo_rows db) of
             [] \<Rightarrow> reply 404 False ''Todo not found'' []
           | t # ts \<Rightarrow> reply 200 True [] [t])"

definition reselect_todo ::
  "nat \<Rightarrow> string \<Rightarrow> string \<Rightarrow> nat \<Rightarrow> todos_db \<Rightarrow> Todo envelope response" where
  "reselect_todo st msg failure tid db =
     (case filter (\<lambda>t. todo_id t = tid) (todo_rows db) of
        [] \<Rightarrow> reply 500 False failure []
      | t # ts \<Rightarrow> reply st True msg [t])"

text \<open>The insert names no \<open>completed_at\<close>: the column takes its default, \<open>NULL\<close>.\<close>

definition insert_todo :: "nat \<Rightarrow> nat \<Rightarrow> todo_body \<Rightarrow> todos_db \<Rightarrow> todos_db" where
  "insert_todo now userId b db =
     db\<lparr>todo_rows := todo_rows db @
           [\<lparr>todo_id = todos_next_id db, todo_text = trim (or_empty (tb_text b)),
             completed = False, todo_user_id = userId,
             priority = (case tb_priority b of None \<Rightarrow> ''medium'' | Some p \<Rightarrow> p),
             due_date = or_null (tb_dueDate b),
             category = or_null (map_option trim (tb_category b)),
             completed_at = None, todo_created_at = now, todo_updated_at = now\<rparr>],
        todos_next_id := Suc (todos_next_id db)\<rparr>"

definition create_todo ::
  "library \<Rightarrow> faults \<Rightarrow> nat \<Rightarrow> nat \<Rightarrow> todo_body \<Rightarrow> todos_db
     \<Rightarrow> Todo envelope response \<times> todos_db" where
  "create_todo lib f now userId b db =
     (if \<not> valid_todo_post lib b then (reply 400 False ''Validation failed'' [], db)
      else if db_fails f 0 then (reply 500 False ''Server error while creating todo'' [], db)
      else if db_fails f 1
      then (reply 500 False ''Server error while creating todo'' [], insert_todo now userId b db)
      else (reselect_todo 201 ''Todo created successfully'' ''Server error while creating todo''
              (todos_next_id db) (insert_todo now userId b db),
            insert_todo now userId b db))"

text \<open>
  The \<open>SET\<close> list of \<open>PUT /api/todos/:id\<close>: when the body names \<open>completed\<close>, the
  column is set to \<open>req.body.completed ? 1 : 0\<close> and \<open>completed_at\<close> to \<open>NOW()\<close> or
  \<open>NULL\<close> by the same test.
\<close>

definition set_todo_fields :: "nat \<Rightarrow> todo_body \<Rightarrow> Todo \<Rightarrow> Todo" where
  "set_todo_fields now b t =
     t\<lparr>todo_text := (case tb_text b of None \<Rightarrow> todo_text t | Some x \<Rightarrow> trim x),
       priority := (case tb_priority b of None \<Rightarrow> priority t | Some p \<Rightarrow> p),
       category := (case tb_category b of None \<Rightarrow> category t | Some c \<Rightarrow> Some (trim c)),
       due_date := (case tb_dueDate b of None \<Rightarrow> due_date t | Some d \<Rightarrow> Some d),
       completed := (case tb_completed b of None \<Rightarrow> completed t | Some v \<Rightarrow> truthy v),
       completed_at := (case tb_completed b of None \<Rightarrow> completed_at t
                        | Some v \<Rightarrow> if truthy v then Some now else None),
       todo_updated_at := now\<rparr>"

definition update_todos_where :: "(Todo \<Rightarrow> bool) \<Rightarrow> (Todo \<Rightarrow> Todo) \<Rightarrow> todos_db \<Rightarrow> todos_db" where
  "update_todos_where cond upd db = db\<lparr>todo_rows := map (\<lambda>t. if cond t then upd t else t) (todo_rows db)\<rparr>"

definition put_todo ::
  "library \<Rightarrow> faults \<Rightarrow> nat \<Rightarrow> nat \<Rightarrow> nat \<Rightarrow> todo_body \<Rightarrow> todos_db
     \<Rightarrow> Todo envelope response \<times> todos_db" where
  "put_todo lib f now userId tid b db =
     (if \<not> valid_todo_put lib b then (reply 400 False ''Validation failed'' [], db)
      else if db_fails f 0 then (reply 500 False ''Server error while updating todo'' [], db)
      else if filter (\<lambda>t. todo_id t = tid \<and> todo_user_id t = userId) (todo_rows db) = []
      then (reply 404 False ''Todo not found'' [], db)
      else if db_fails f 1 then (reply 500 False ''Server error while updating todo'' [], db)
      else
        let db' = update_todos_where (\<lambda>t. todo_id t = tid \<and> todo_user_id t = userId)
                    (set_todo_fields now b) db
        in if db_fails f 2 then (reply 500 False ''Server error while updating todo'' [], db')
           else (reselect_todo 200 ''Todo updated successfully''
                   ''Server error while updating todo'' tid db', db'))"

text \<open>
  \<open>PATCH /api/todos/:id/toggle\<close>: \<open>newCompletedStatus = !todos[0].completed\<close>, then one
  of two updates \<open>WHERE id = ?\<close>, with \<open>completed_at = NOW()\<close> or \<open>completed_at = NULL\<close>.
\<close>

definition toggle_todo ::
  "faults \<Rightarrow> nat \<Rightarrow> nat \<Rightarrow> nat \<Rightarrow> todos_db \<Rightarrow> Todo envelope response \<times> todos_db" where
  "toggle_todo f now userId tid db =
     (if db_fails f 0 then (reply 500 False ''Server error while toggling todo status'' [], db)
      else case filter (\<lambda>t. todo_id t = tid \<and> todo_user_id t = userId) (todo_rows db) of
             [] \<Rightarrow> (reply 404 False ''Todo not found'' [], db)
           | t # ts \<Rightarrow>
               if db_fails f 1 then (reply 500 False ''Server error while toggling todo status'' [], db)
               else
                 let db' = (if \<not> completed t
                            then update_todos_where (\<lambda>x. todo_id x = tid)
                                   (\<lambda>x. x\<lparr>completed := True, completed_at := Some now,
                                           todo_updated_at := now\<rparr>) db
                            else update_todos_where (\<lambda>x. todo_id x = tid)
                                   (\<lambda>x. x\<lparr>completed := False, completed_at := None,
                                           todo_updated_at := now\<rparr>) db)
                 in if db_fails f 2
                    then (reply 500 False ''Server error while toggling todo status'' [], db')
                    else (reselect_todo 200
                            (if \<not> completed t then ''Todo marked as completed''
                             else ''Todo marked as pending'')
                            ''Server error while toggling todo status'' tid db', db'))"

definition delete_todo ::
  "faults \<Rightarrow> nat \<Rightarrow> nat \<Rightarrow> todos_db \<Rightarrow> Todo envelope response \<times> todos_db" where
  "delete_todo f userId tid db =
     (if db_fails f 0 then (reply 500 False ''Server error while deleting todo'' [], db)
      else if filter (\<lambda>t. todo_id t = tid \<and> todo_user_id t = userId) (todo_rows db) = []
      then (reply 404 False ''Todo not found'' [], db)
      else (reply 200 True ''Todo deleted successfully'' [],
            db\<lparr>todo_rows := filter (\<lambda>t. \<not> (todo_id t = tid \<and> todo_user_id t = userId)) (todo_rows db)\<rparr>))"

datatype todo_request =
    ListTodos todo_query
  | GetTodo nat
  | PostTodo todo_body
  | PutTodo nat todo_body
  | ToggleTodo nat
  | DeleteTodo nat

definition todos_router ::
  "library \<Rightarrow> faults \<Rightarrow> nat \<Rightarrow> nat \<Rightarrow> todo_request \<Rightarrow> todos_db
     \<Rightarrow> Todo envelope response \<times> todos_db" where
  "todos_router lib f now userId req db =
     (case req of
        ListTodos q \<Rightarrow> (list_todos f userId q db, db)
      | GetTodo tid \<Rightarrow> (get_todo f userId tid db, db)
      | PostTodo b \<Rightarrow> create_todo lib f now userId b db
      | PutTodo tid b \<Rightarrow> put_todo lib f now userId tid b db
      | ToggleTodo tid \<Rightarrow> toggle_todo f now userId tid db
      | DeleteTodo tid \<Rightarrow> delete_todo f userId tid db)"

text \<open>
  The \<open>beforeSave\<close> hook of the Sequelize \<open>Todo\<close> model, for an instance whose
  \<open>changed('completed')\<close> is \<open>changed\<close>.
\<close>

definition Todo_beforeSave :: "nat \<Rightarrow> bool \<Rightarrow> Todo \<Rightarrow> Todo" where
  "Todo_beforeSave now changed todo =
     (if changed
      then (if completed todo then todo\<lparr>completed_at := Some now\<rparr>
            else todo\<lparr>completed_at := None\<rparr>)
      else todo)"

text \<open>
  The primary key: ids are unique and below the auto-increment counter. The completion
  invariant: no row has a completion timestamp while its flag is false.
\<close>

definition notes_wf :: "notes_db \<Rightarrow> bool" where
  "notes_wf db =
     (distinct (map note_id (note_rows db))
      \<and> list_all (\<lambda>n. note_id n < notes_next_id db) (note_rows db))"

definition todos_wf :: "todos_db \<Rightarrow> bool" where
  "todos_wf db =
     (distinct (map todo_id (todo_rows db))
      \<and> list_all (\<lambda>t. todo_id t < todos_next_id db) (todo_rows db))"

definition stamp_ok :: "Todo \<Rightarrow> bool" where
  "stamp_ok t = (completed t \<or> completed_at t = None)"

section \<open>Monolith: the User model and the auth routes\<close>

text \<open>
  The Sequelize \<open>User\<close> model: the setters of \<open>email\<close> and \<open>username\<close>, the
  validators, the \<open>beforeSave\<close> hook that replaces a changed password by its bcrypt hash
  (\<open>bcrypt_hash\<close> stands for \<open>genSalt(12)\<close> followed by \<open>hash\<close>), and \<open>toJSON\<close>,
  which deletes \<open>password\<close> from the values it returns.
\<close>

record users_db =
  user_rows :: "User list"
  users_next_id :: nat

definition is_word_char :: "char \<Rightarrow> bool" where
  "is_word_char c =
     (let n = (of_char c :: nat)
      in (48 \<le> n \<and> n \<le> 57) \<or> (65 \<le> n \<and> n \<le> 90) \<or> (97 \<le> n \<and> n \<le> 122) \<or> n = 95)"

definition matches_username :: "string \<Rightarrow> bool" where
  "matches_username s = (s \<noteq> [] \<and> list_all is_word_char s)"

definition notEmpty :: "string \<Rightarrow> bool" where
  "notEmpty s = (trim s \<noteq> [])"

definition User_validate :: "library \<Rightarrow> User \<Rightarrow> bool" where
  "User_validate lib u =
     (notEmpty (name u) \<and> 1 \<le> length (name u) \<and> length (name u) \<le> 50
      \<and> notEmpty (email u) \<and> isEmail lib (email u)
      \<and> notEmpty (username u) \<and> 3 \<le> length (username u) \<and> length (username u) \<le> 20
      \<and> matches_username (username u)
      \<and> notEmpty (password u) \<and> 6 \<le> length (password u) \<and> length (password u) \<le> 255)"

definition User_beforeSave :: "crypto \<Rightarrow> bool \<Rightarrow> User \<Rightarrow> User" where
  "User_beforeSave cr changed_password u =
     (if changed_password then u\<lparr>password := bcrypt_hash cr (password u)\<rparr> else u)"

definition User_toJSON :: "User \<Rightarrow> json_object" where
  "User_toJSON u = without_password (User_get u)"

text \<open>
  The \<open>errors\<close> of a \<open>SequelizeValidationError\<close>: path and message of every validator
  of the model that fails, attribute by attribute. \<open>User_validate\<close> holds exactly when
  there is none.
\<close>

definition violated :: "bool \<Rightarrow> string \<Rightarrow> string \<Rightarrow> (string \<times> string) list" where
  "violated ok path msg = (if ok then [] else [(path, msg)])"

definition User_validation_errors :: "library \<Rightarrow> User \<Rightarrow> (string \<times> string) list" where
  "User_validation_errors lib u =
     violated (notEmpty (name u)) ''name'' ''Name is required''
     @ violated (1 \<le> length (name u) \<and> length (name u) \<le> 50) ''name''
         ''Name cannot be more than 50 characters''
     @ violated (notEmpty (email u)) ''email'' ''Email is required''
     @ violated (isEmail lib (email u)) ''email'' ''Please enter a valid email''
     @ violated (notEmpty (username u)) ''username'' ''Username is required''
     @ violated (3 \<le> length (username u) \<and> length (username u) \<le> 20) ''username''
         ''Username must be 3-20 characters''
     @ violated (matches_username (username u)) ''username''
         ''Username can only contain letters, numbers, and underscores''
     @ violated (notEmpty (password u)) ''password'' ''Password is required''
     @ violated (6 \<le> length (password u) \<and> length (password u) \<le> 255) ''password''
         ''Password must be at least 6 characters''"

datatype create_error =
    SequelizeValidationError "(string \<times> string) list"
  | SequelizeUniqueConstraintError string
  | SequelizeDatabaseError

text \<open>
  \<open>User.create\<close>: build the instance through the setters, validate it, run the hook
  (on a new instance every given attribute counts as changed), insert. The table has
  unique indexes on \<open>email\<close> and \<open>username\<close>; the error of a duplicate names the
  column.
\<close>

definition User_create ::
  "library \<Rightarrow> crypto \<Rightarrow> bool \<Rightarrow> nat \<Rightarrow> users_db \<Rightarrow> string \<Rightarrow> string \<Rightarrow> string \<Rightarrow> string
     \<Rightarrow> (create_error + User) \<times> users_db" where
  "User_create lib cr insert_fails now db nm em un pw =
     (let built = \<lparr>user_id = users_next_id db, name = nm, email = trim (toLowerCase em),
                    username = trim un, password = pw,
                    user_created_at = now, user_updated_at = now\<rparr>
      in if \<not> User_validate lib built
         then (Inl (SequelizeValidationError (User_validation_errors lib built)), db)
         else
           let saved = User_beforeSave cr True built
           in if insert_fails then (Inl SequelizeDatabaseError, db)
              else if list_ex (\<lambda>u. email u = email saved) (user_rows db)
              then (Inl (SequelizeUniqueConstraintError ''email''), db)
              else if list_ex (\<lambda>u. username u = username saved) (user_rows db)
              then (Inl (SequelizeUniqueConstraintError ''username''), db)
              else (Inr saved,
                    db\<lparr>user_rows := user_rows db @ [saved],
                       users_next_id := Suc (users_next_id db)\<rparr>))"

record register_body =
  r_name :: "string option"
  r_email :: "string option"
  r_username :: "string option"
  r_password :: "string option"

definition valid_register :: "library \<Rightarrow> register_body \<Rightarrow> bool" where
  "valid_register lib b =
     (1 \<le> length (trim (or_empty (r_name b))) \<and> length (trim (or_empty (r_name b))) \<le> 50
      \<and> isEmail lib (or_empty (r_email b))
      \<and> 3 \<le> length (trim (or_empty (r_username b)))
      \<and> length (trim (or_empty (r_username b))) \<le> 20
      \<and> matches_username (trim (or_empty (r_username b)))
      \<and> 6 \<le> length (or_empty (r_password b)))"

text \<open>
  \<open>errors.array()\<close> of the register route's validator chains, chain by chain and
  validator by validator. A sanitizer rewrites the field before the validators after it
  run, so \<open>name\<close> and \<open>username\<close> are reported trimmed; \<open>email\<close> and \<open>password\<close>
  are reported as submitted. \<open>withMessage\<close> names the message of the validator before it;
  the length check of \<open>username\<close> keeps the default message. \<open>valid_register\<close> holds
  exactly when the array is empty.
\<close>

definition rejected :: "bool \<Rightarrow> string \<Rightarrow> string \<Rightarrow> string option \<Rightarrow> validation_error list" where
  "rejected ok field msg v =
     (if ok then [] else [\<lparr>ve_field = field, ve_msg = msg, ve_value = v\<rparr>])"

definition register_errors :: "library \<Rightarrow> register_body \<Rightarrow> validation_error list" where
  "register_errors lib b =
     (let nm = trim (or_empty (r_name b));
          un = trim (or_empty (r_username b))
      in rejected (1 \<le> length nm \<and> length nm \<le> 50) ''name''
           ''Name is required and must be less than 50 characters'' (Some nm)
         @ rejected (isEmail lib (or_empty (r_email b))) ''email''
             ''Please provide a valid email'' (r_email b)
         @ rejected (3 \<le> length un \<and> length un \<le> 20) ''username'' ''Invalid value'' (Some un)
         @ rejected (matches_username un) ''username''
             ''Username must be 3-20 characters and contain only letters, numbers, and underscores''
             (Some un)
         @ rejected (6 \<le> length (or_empty (r_password b))) ''password''
             ''Password must be at least 6 characters long'' (r_password b))"

definition user_reply :: "nat \<Rightarrow> string \<Rightarrow> User \<Rightarrow> string \<Rightarrow> auth_body response" where
  "user_reply st msg u token =
     \<lparr>status = st,
      body = \<lparr>a_success = True, a_message = msg, a_user = Some (User_toJSON u),
              a_accessToken = Some token, a_refreshToken = None, a_errors = []\<rparr>\<rparr>"

text \<open>
  \<open>POST /api/auth/register\<close>. A body that fails the validator chains is answered 400
  with \<open>errors: errors.array()\<close>. Otherwise the body is read after the sanitizers
  (\<open>trim\<close>, \<open>normalizeEmail\<close>) have rewritten it. Statement 0 is the \<open>findOne\<close>,
  statement 1 the insert of \<open>User.create\<close>. \<open>res.json\<close> serializes the instance
  through \<open>toJSON\<close>.
\<close>

definition register ::
  "library \<Rightarrow> crypto \<Rightarrow> faults \<Rightarrow> nat \<Rightarrow> users_db \<Rightarrow> register_body
     \<Rightarrow> auth_body response \<times> users_db" where
  "register lib cr f now db b =
     (let nm = trim (or_empty (r_name b));
          em = normalizeEmail lib (or_empty (r_email b));
          un = trim (or_empty (r_username b));
          pw = or_empty (r_password b)
      in if \<not> valid_register lib b
         then (auth_errors 400 ''Validation failed'' (register_errors lib b), db)
         else if db_fails f 0 then (auth_reply 500 False ''Server error during registration'', db)
         else case find (\<lambda>u. email u = toLowerCase em \<or> username u = un) (user_rows db) of
                Some existing \<Rightarrow>
                  (auth_reply 400 False
                     (if email existing = toLowerCase em then ''Email already registered''
                      else ''Username already taken''), db)
              | None \<Rightarrow>
                  (case User_create lib cr (db_fails f 1) now db nm em un pw of
                     (Inl (SequelizeValidationError es), db') \<Rightarrow>
                       (auth_errors 400 ''Validation failed''
                          (map (\<lambda>(path, msg). \<lparr>ve_field = path, ve_msg = msg, ve_value = None\<rparr>) es),
                        db')
                   | (Inl (SequelizeUniqueConstraintError field), db') \<Rightarrow>
                       (auth_reply 400 False
                          ((if field = ''email'' then ''Email'' else ''Username'')
                             @ '' already exists''), db')
                   | (Inl SequelizeDatabaseError, db') \<Rightarrow>
                       (auth_reply 500 False ''Server error during registration'', db')
                   | (Inr u, db') \<Rightarrow>
                       (user_reply 201 ''User registered successfully'' u
                          (generateToken cr now (user_id u)), db')))"

text \<open>\<open>POST /api/auth/login\<close> (a connection error of the database is answered 503, any other 500).\<close>

definition login ::
  "crypto \<Rightarrow> faults \<Rightarrow> nat \<Rightarrow> users_db \<Rightarrow> string option \<Rightarrow> string option
     \<Rightarrow> auth_body response" where
  "login cr f now db uname pw =
     (if trim (or_empty uname) = [] \<or> or_empty pw = []
      then auth_errors 400 ''Validation failed''
             (required_error ''username'' ''Username or email is required''
                (Some (trim (or_empty uname)))
              @ required_error ''password'' ''Password is required'' pw)
      else if db_fails f 0 then auth_reply 500 False ''Server error during login''
      else case find (\<lambda>u. username u = trim (or_empty uname)
                            \<or> email u = toLowerCase (trim (or_empty uname))) (user_rows db) of
             None \<Rightarrow> auth_reply 400 False ''Invalid credentials''
           | Some u \<Rightarrow>
               if \<not> bcrypt_compare cr (or_empty pw) (password u)
               then auth_reply 400 False ''Invalid credentials''
               else user_reply 200 ''Login successful'' u (generateToken cr now (user_id u)))"

text \<open>\<open>POST /api/auth/demo\<close>: find the user \<open>demo\<close> or create it.\<close>

definition demo ::
  "library \<Rightarrow> crypto \<Rightarrow> faults \<Rightarrow> nat \<Rightarrow> users_db \<Rightarrow> auth_body response \<times> users_db" where
  "demo lib cr f now db =
     (if db_fails f 0 then (auth_reply 500 False ''Server error during demo login'', db)
      else case find (\<lambda>u. username u = ''demo'') (user_rows db) of
             Some u \<Rightarrow> (user_reply 200 ''Demo login successful'' u (generateToken cr now (user_id u)), db)
           | None \<Rightarrow>
               (case User_create lib cr (db_fails f 1) now db ''Demo User'' ''demo@micronote.com''
                       ''demo'' ''demo123'' of
                  (Inl e, db') \<Rightarrow> (auth_reply 500 False ''Server error during demo login'', db')
                | (Inr u, db') \<Rightarrow>
                    (user_reply 200 ''Demo login successful'' u
                       (generateToken cr now (user_id u)), db')))"

text \<open>
  The \<open>auth\<close> middleware and \<open>GET /api/auth/me\<close>. \<open>findByPk\<close> loads the attributes
  \<open>id, name, email, username, createdAt, updatedAt\<close> only; the route answers with that
  instance, serialized through \<open>toJSON\<close>. (The message of a rejected token names the
  kind of failure; the model keeps one.)
\<close>

definition bearer_token :: "string option \<Rightarrow> string option" where
  "bearer_token header =
     (case header of
        None \<Rightarrow> None
      | Some h \<Rightarrow> if take 7 h = ''Bearer '' then Some (drop 7 h) else None)"

definition me ::
  "crypto \<Rightarrow> faults \<Rightarrow> nat \<Rightarrow> users_db \<Rightarrow> string option \<Rightarrow> auth_body response" where
  "me cr f now db header =
     (case bearer_token header of
        None \<Rightarrow> auth_reply 401 False ''No token provided, authorization denied''
      | Some token \<Rightarrow>
          (case jwt_verify cr now token of
             Inl e \<Rightarrow> auth_reply 401 False ''Token is invalid''
           | Inr decoded \<Rightarrow>
               if db_fails f 0 then auth_reply 500 False ''Authorization failed''
               else (case find (\<lambda>u. user_id u = jwt_id decoded) (user_rows db) of
                       None \<Rightarrow> auth_reply 401 False ''User not found, token is not valid''
                     | Some u \<Rightarrow>
                         \<lparr>status = 200,
                          body = \<lparr>a_success = True, a_message = [],
                                  a_user = Some (without_password
                                     [(''id'', string_of_nat (user_id u)), (''name'', name u),
                                      (''email'', email u), (''username'', username u),
                                      (''createdAt'', string_of_nat (user_created_at u)),
                                      (''updatedAt'', string_of_nat (user_updated_at u))]),
                                  a_accessToken = None, a_refreshToken = None, a_errors = []\<rparr>\<rparr>)))"

text \<open>The keys and the values of the user object a response carries (none when it carries no user).\<close>

definition user_keys :: "auth_body response \<Rightarrow> string list" where
  "user_keys resp = (case a_user (body resp) of None \<Rightarrow> [] | Some obj \<Rightarrow> map fst obj)"

text \<open>A password that passes the route's and the model's checks.\<close>

definition password_ok :: "string \<Rightarrow> bool" where
  "password_ok p = (6 \<le> length p \<and> length p \<le> 255 \<and> notEmpty p)"

section \<open>Todos service: invalidation and write routes\<close>

text \<open>
  The todos microservice answers its reads from the database on every request and clears
  the keys \<open>cache:todos:${userId}:*\<close> after every write, with the same
  \<open>clearUserCache\<close> as the notes service. Its rows live behind the Sequelize model:
  \<open>created\<close> is the instance \<open>Todo.create\<close> returns, \<open>found\<close> the row of
  \<open>Todo.findOne({ where: { id, userId: req.user.id } })\<close> and \<open>changed\<close> the instance
  after \<open>todo.update\<close>; \<open>db_fails\<close> numbers the awaited model calls of a handler.
\<close>

definition clearUserCache_todos :: "faults \<Rightarrow> nat \<Rightarrow> redis \<Rightarrow> nat \<Rightarrow> error + redis" where
  "clearUserCache_todos f now r userId =
     clear_pattern f now r (''cache:todos:'' @ string_of_nat userId @ '':*'')"

text \<open>The service's validator chains: as the monolith's, but \<open>category\<close> is not trimmed.\<close>

definition valid_category_length :: "string option \<Rightarrow> bool" where
  "valid_category_length v = (case v of None \<Rightarrow> True | Some c \<Rightarrow> length c \<le> 30)"

definition valid_create_todo :: "library \<Rightarrow> todo_body \<Rightarrow> bool" where
  "valid_create_todo lib b =
     (1 \<le> length (trim (or_empty (tb_text b))) \<and> length (trim (or_empty (tb_text b))) \<le> 200
      \<and> valid_priority (tb_priority b) \<and> valid_category_length (tb_category b)
      \<and> valid_dueDate lib (tb_dueDate b))"

definition valid_update_todo :: "library \<Rightarrow> todo_body \<Rightarrow> bool" where
  "valid_update_todo lib b =
     ((case tb_text b of None \<Rightarrow> True
        | Some t \<Rightarrow> 1 \<le> length (trim t) \<and> length (trim t) \<le> 200)
      \<and> valid_priority (tb_priority b) \<and> valid_category_length (tb_category b)
      \<and> valid_dueDate lib (tb_dueDate b)
      \<and> (case tb_completed b of None \<Rightarrow> True | Some v \<Rightarrow> isBoolean v))"

definition post_todo ::
  "library \<Rightarrow> faults \<Rightarrow> nat \<Rightarrow> redis \<Rightarrow> nat \<Rightarrow> todo_body \<Rightarrow> 't
     \<Rightarrow> 't envelope response \<times> redis" where
  "post_todo lib f now r userId b created =
     (if \<not> valid_create_todo lib b then (reply 400 False ''Validation failed'' [], r)
      else if db_fails f 0 then (reply 500 False ''Failed to create todo'' [], r)
      else case clearUserCache_todos f now r userId of
             Inl e \<Rightarrow> (reply 500 False ''Failed to create todo'' [], r)
           | Inr r' \<Rightarrow> (reply 201 True ''Todo created successfully'' [created], r'))"

definition patch_toggle ::
  "faults \<Rightarrow> nat \<Rightarrow> redis \<Rightarrow> nat \<Rightarrow> 't option \<Rightarrow> ('t \<Rightarrow> 't)
     \<Rightarrow> 't envelope response \<times> redis" where
  "patch_toggle f now r userId found changed =
     (if db_fails f 0 then (reply 500 False ''Failed to update todo'' [], r)
      else case found of
             None \<Rightarrow> (reply 404 False ''Todo not found'' [], r)
           | Some t \<Rightarrow>
               if db_fails f 1 then (reply 500 False ''Failed to update todo'' [], r)
               else case clearUserCache_todos f now r userId of
                      Inl e \<Rightarrow> (reply 500 False ''Failed to update todo'' [], r)
                    | Inr r' \<Rightarrow> (reply 200 True ''Todo updated successfully'' [changed t], r'))"

definition put_todo_service ::
  "library \<Rightarrow> faults \<Rightarrow> nat \<Rightarrow> redis \<Rightarrow> nat \<Rightarrow> todo_body \<Rightarrow> 't option \<Rightarrow> ('t \<Rightarrow> 't)
     \<Rightarrow> 't envelope response \<times> redis" where
  "put_todo_service lib f now r userId b found changed =
     (if \<not> valid_update_todo lib b then (reply 400 False ''Validation failed'' [], r)
      else if db_fails f 0 then (reply 500 False ''Failed to update todo'' [], r)
      else case found of
             None \<Rightarrow> (reply 404 False ''Todo not found'' [], r)
           | Some t \<Rightarrow>
               if db_fails f 1 then (reply 500 False ''Failed to update todo'' [], r)
               else case clearUserCache_todos f now r userId of
                      Inl e \<Rightarrow> (reply 500 False ''Failed to update todo'' [], r)
                    | Inr r' \<Rightarrow> (reply 200 True ''Todo updated successfully'' [changed t], r'))"

definition delete_todo_service ::
  "faults \<Rightarrow> nat \<Rightarrow> redis \<Rightarrow> nat \<Rightarrow> 't option \<Rightarrow> 't envelope response \<times> redis" where
  "delete_todo_service f now r userId found =
     (if db_fails f 0 then (reply 500 False ''Failed to delete todo'' [], r)
      else case found of
             None \<Rightarrow> (reply 404 False ''Todo not found'' [], r)
           | Some t \<Rightarrow>
               if db_fails f 1 then (reply 500 False ''Failed to delete todo'' [], r)
               else case clearUserCache_todos f now r userId of
                      Inl e \<Rightarrow> (reply 500 False ''Failed to delete todo'' [], r)
                    | Inr r' \<Rightarrow> (reply 200 True ''Todo deleted successfully'' [], r'))"

text \<open>
  \<open>PUT /:id\<close> of the todos service on the table. \<open>updates\<close> is \<open>req.body\<close>; when
  it names \<open>completed\<close> the handler adds
  \<open>completedAt = updates.completed ? new Date() : null\<close>, by the JavaScript truthiness of
  the submitted value, and hands the object to \<open>todo.update\<close>. Sequelize converts the
  value of a \<open>BOOLEAN\<close> attribute when it is set: the strings \<open>true\<close> and \<open>false\<close> and
  the numbers 1 and 0 become the booleans they spell, and MySQL reads the strings \<open>1\<close>
  and \<open>0\<close> as numbers. (The fields of the body are those the validator chain names.)
  A row that does not change is not written.
\<close>

fun BOOLEAN_value :: "jsval \<Rightarrow> bool" where
  "BOOLEAN_value (JBool b) = b"
| "BOOLEAN_value (JNum n) = (n \<noteq> 0)"
| "BOOLEAN_value (JStr s) = (s = ''true'' \<or> s = ''1'')"
| "BOOLEAN_value JNull = False"

definition Todo_update :: "nat \<Rightarrow> todo_body \<Rightarrow> Todo \<Rightarrow> Todo" where
  "Todo_update now b t =
     (let t' = t\<lparr>todo_text := (case tb_text b of None \<Rightarrow> todo_text t | Some s \<Rightarrow> trim s),
                 priority := (case tb_priority b of None \<Rightarrow> priority t | Some p \<Rightarrow> p),
                 category := (case tb_category b of None \<Rightarrow> category t | Some c \<Rightarrow> Some c),
                 due_date := (case tb_dueDate b of None \<Rightarrow> due_date t | Some d \<Rightarrow> Some d),
                 completed := (case tb_completed b of None \<Rightarrow> completed t
                               | Some v \<Rightarrow> BOOLEAN_value v),
                 completed_at := (case tb_completed b of None \<Rightarrow> completed_at t
                                  | Some v \<Rightarrow> if truthy v then Some now else None)\<rparr>
      in if t' = t then t else t'\<lparr>todo_updated_at := now\<rparr>)"

definition put_todo_by_id ::
  "library \<Rightarrow> faults \<Rightarrow> nat \<Rightarrow> nat \<Rightarrow> nat \<Rightarrow> todo_body \<Rightarrow> todos_db \<Rightarrow> redis
     \<Rightarrow> Todo envelope response \<times> todos_db \<times> redis" where
  "put_todo_by_id lib f now userId tid b db r =
     (let found = find (\<lambda>t. todo_id t = tid \<and> todo_user_id t = userId) (todo_rows db);
          written = (valid_update_todo lib b \<and> \<not> db_fails f 0 \<and> found \<noteq> None
                     \<and> \<not> db_fails f 1);
          db' = (if written
                 then db\<lparr>todo_rows := map (\<lambda>t. if todo_id t = tid then Todo_update now b t else t)
                                         (todo_rows db)\<rparr>
                 else db);
          answer = put_todo_service lib f now r userId b found (Todo_update now b)
      in (fst answer, db', snd answer))"

datatype 't todo_write =
    CreateTodo todo_body 't
  | ToggleCompletion "'t option" "'t \<Rightarrow> 't"
  | UpdateTodo todo_body "'t option" "'t \<Rightarrow> 't"
  | RemoveTodo "'t option"

definition todos_write ::
  "library \<Rightarrow> faults \<Rightarrow> nat \<Rightarrow> nat \<Rightarrow> 't todo_write \<Rightarrow> redis \<Rightarrow> 't envelope response \<times> redis" where
  "todos_write lib f now userId w r =
     (case w of
        CreateTodo b created \<Rightarrow> post_todo lib f now r userId b created
      | ToggleCompletion found changed \<Rightarrow> patch_toggle f now r userId found changed
      | UpdateTodo b found changed \<Rightarrow> put_todo_service lib f now r userId b found changed
      | RemoveTodo found \<Rightarrow> delete_todo_service f now r userId found)"

section \<open>Vocabulary for the ownership and completion properties\<close>

text \<open>
  The resource id a request names in its path, and whether its body fails the route's
  validator chain (which runs before the handler looks anything up).
\<close>

definition note_target :: "note_request \<Rightarrow> nat option" where
  "note_target req =
     (case req of
        ListNotes q \<Rightarrow> None | PostNote b \<Rightarrow> None
      | GetNote nid \<Rightarrow> Some nid | PutNote nid b \<Rightarrow> Some nid
      | DeleteNoteById nid \<Rightarrow> Some nid | PinNote nid \<Rightarrow> Some nid)"

definition note_invalid :: "note_request \<Rightarrow> bool" where
  "note_invalid req = (case req of PutNote nid b \<Rightarrow> \<not> valid_note_put b | _ \<Rightarrow> False)"

definition todo_target :: "todo_request \<Rightarrow> nat option" where
  "todo_target req =
     (case req of
        ListTodos q \<Rightarrow> None | PostTodo b \<Rightarrow> None
      | GetTodo tid \<Rightarrow> Some tid | PutTodo tid b \<Rightarrow> Some tid
      | ToggleTodo tid \<Rightarrow> Some tid | DeleteTodo tid \<Rightarrow> Some tid)"

definition todo_invalid :: "library \<Rightarrow> todo_request \<Rightarrow> bool" where
  "todo_invalid lib req = (case req of PutTodo tid b \<Rightarrow> \<not> valid_todo_put lib b | _ \<Rightarrow> False)"

definition owned_note :: "nat \<Rightarrow> nat \<Rightarrow> notes_db \<Rightarrow> bool" where
  "owned_note userId nid db =
     (filter (\<lambda>n. note_id n = nid \<and> note_user_id n = userId) (note_rows db) \<noteq> [])"

definition owned_todo :: "nat \<Rightarrow> nat \<Rightarrow> todos_db \<Rightarrow> bool" where
  "owned_todo userId tid db =
     (filter (\<lambda>t. todo_id t = tid \<and> todo_user_id t = userId) (todo_rows db) \<noteq> [])"

definition foreign_notes :: "nat \<Rightarrow> notes_db \<Rightarrow> Note list" where
  "foreign_notes userId db = filter (\<lambda>n. note_user_id n \<noteq> userId) (note_rows db)"

definition foreign_todos :: "nat \<Rightarrow> todos_db \<Rightarrow> Todo list" where
  "foreign_todos userId db = filter (\<lambda>t. todo_user_id t \<noteq> userId) (todo_rows db)"

text \<open>A history of todo requests, each with its faults, its time and its caller.\<close>

fun todos_run ::
  "library \<Rightarrow> (faults \<times> nat \<times> nat \<times> todo_request) list \<Rightarrow> todos_db \<Rightarrow> todos_db" where
  "todos_run lib [] db = db"
| "todos_run lib ((f, now, userId, req) # rest) db =
     todos_run lib rest (snd (todos_router lib f now userId req db))"

section \<open>Example requests and states\<close>

text \<open>Concrete inputs on which the theorems below are instantiated.\<close>

definition ex_note_body :: note_fields where
  "ex_note_body = \<lparr>f_title = Some ''A'', f_text = Some ''B'', f_tags = None,
                    f_isPinned = None, f_isArchived = None, f_userId = None\<rparr>"

definition ex_notes_db :: notes_db where
  "ex_notes_db = \<lparr>note_rows = [], notes_next_id = 1\<rparr>"

definition ex_cache :: redis where
  "ex_cache = [(cache_key 1 ''/?page=1'', 200, ''old'')]"

definition ex_query :: notes_query where
  "ex_query = \<lparr>q_page = None, q_limit = None, q_search = None, q_archived = None,
                q_pinned = None\<rparr>"

text \<open>A store holding one cached entry of user 1 for each of the three services.\<close>

definition ex_shared_cache :: redis where
  "ex_shared_cache =
     [(cache_key 1 ''/?page=1'', 200, ''old''),
      (''cache:todos:1:/?page=1'', 200, ''old todos''),
      (gateway_cacheKey 1 ex_query, 200, ''old list'')]"

text \<open>
  A toy instance of the libraries: tokens are readable strings, \<open>jwt_decode\<close> knows the
  payloads of the tokens used below, and a hash is the password behind a fixed prefix.
\<close>

definition ex_sign :: "jwt_payload \<Rightarrow> string" where
  "ex_sign p = (case jwt_type p of None \<Rightarrow> ''access.'' | Some ty \<Rightarrow> ty @ ''.'')
                 @ string_of_nat (jwt_id p) @ ''.'' @ string_of_nat (jwt_iat p)"

definition ex_payloads :: "jwt_payload list" where
  "ex_payloads =
     [\<lparr>jwt_id = 1, jwt_type = Some ''refresh'', jwt_iat = 100, jwt_exp = 100 + 30 * 24 * 60 * 60\<rparr>,
      \<lparr>jwt_id = 1, jwt_type = Some ''refresh'', jwt_iat = 200, jwt_exp = 200 + 30 * 24 * 60 * 60\<rparr>,
      \<lparr>jwt_id = 1, jwt_type = None, jwt_iat = 200, jwt_exp = 200 + 7 * 24 * 60 * 60\<rparr>]"

definition ex_crypto :: crypto where
  "ex_crypto =
     \<lparr>bcrypt_hash = (\<lambda>p. ''$2a$12$'' @ p),
      bcrypt_compare = (\<lambda>p h. h = ''$2a$12$'' @ p),
      jwt_sign = ex_sign,
      jwt_decode = map_of (map (\<lambda>p. (ex_sign p, p)) ex_payloads)\<rparr>"

definition ex_users :: "User list" where
  "ex_users =
     [\<lparr>user_id = 1, name = ''Ann'', email = ''ann@example.com'', username = ''ann'',
       password = ''$2a$12$secret1'', user_created_at = 0, user_updated_at = 0\<rparr>]"

definition ex_login1 :: "auth_body response \<times> redis" where
  "ex_login1 = auth_login ex_crypto no_faults 100 ex_users [] (Some ''ann'') (Some ''secret1'')"

definition ex_login2 :: "auth_body response \<times> redis" where
  "ex_login2 =
     auth_login ex_crypto no_faults 200 ex_users (snd ex_login1) (Some ''ann'') (Some ''secret1'')"

definition ex_logout :: "auth_body response \<times> redis" where
  "ex_logout = auth_logout ex_crypto no_faults 300 (snd ex_login2) None (Some ''access.1.200'')"

text \<open>Tables of the monolith with rows of two users, and a toy instance of the library.\<close>

definition ex_library :: library where
  "ex_library =
     \<lparr>sql_like = (\<lambda>p s. True), isISO8601 = (\<lambda>d. d \<noteq> []),
      isEmail = (\<lambda>e. CHR ''@'' \<in> set e), normalizeEmail = toLowerCase\<rparr>"

definition ex_note_table :: notes_db where
  "ex_note_table =
     \<lparr>note_rows =
        [\<lparr>note_id = 1, title = ''A'', note_text = ''B'', note_user_id = 1, tags = [],
          is_pinned = False, is_archived = False, note_created_at = 10, note_updated_at = 10\<rparr>,
         \<lparr>note_id = 2, title = ''C'', note_text = ''D'', note_user_id = 2, tags = [],
          is_pinned = False, is_archived = False, note_created_at = 20, note_updated_at = 20\<rparr>],
      notes_next_id = 3\<rparr>"

definition ex_todo_table :: todos_db where
  "ex_todo_table =
     \<lparr>todo_rows =
        [\<lparr>todo_id = 1, todo_text = ''write'', completed = False, todo_user_id = 1,
          priority = ''medium'', due_date = None, category = None, completed_at = None,
          todo_created_at = 10, todo_updated_at = 10\<rparr>,
         \<lparr>todo_id = 2, todo_text = ''read'', completed = True, todo_user_id = 2,
          priority = ''high'', due_date = None, category = None, completed_at = Some 50,
          todo_created_at = 20, todo_updated_at = 50\<rparr>],
      todos_next_id = 3\<rparr>"

definition ex_empty_title :: note_body where
  "ex_empty_title = \<lparr>nb_title = Some [], nb_text = None, nb_tags = None,
                      nb_isPinned = None, nb_isArchived = None\<rparr>"

definition ex_complete :: todo_body where
  "ex_complete = \<lparr>tb_text = None, tb_priority = None, tb_category = None, tb_dueDate = None,
                   tb_completed = Some (JBool True)\<rparr>"

definition ex_completed_false :: todo_body where
  "ex_completed_false = \<lparr>tb_text = None, tb_priority = None, tb_category = None,
                          tb_dueDate = None, tb_completed = Some (JStr ''false'')\<rparr>"

definition ex_short_password :: register_body where
  "ex_short_password = \<lparr>r_name = Some ''Bob'', r_email = Some ''bob@example.com'',
                         r_username = Some ''bob_1'', r_password = Some ''12345''\<rparr>"

definition ex_user_table :: users_db where
  "ex_user_table = \<lparr>user_rows = ex_users, users_next_id = 2\<rparr>"

definition ex_register :: register_body where
  "ex_register = \<lparr>r_name = Some ''Bob'', r_email = Some ''Bob@Example.com'',
                   r_username = Some ''bob_1'', r_password = Some ''hunter22''\<rparr>"

section \<open>Lemmas on keys and patterns\<close>

lemma glob_star_any: "glob_match ''*'' s"
  by (induction s) auto

lemma glob_literal_prefix:
  "CHR ''*'' \<notin> set l \<Longrightarrow> glob_match (l @ ''*'') (l @ s)"
proof (induction l)
  case Nil
  show ?case using glob_star_any by simp
next
  case (Cons a l)
  then show ?case by auto
qed

lemma digit_char_in: "digit_char d \<in> set ''0123456789''"
  by (simp add: digit_char_def)

lemma string_of_nat_digits: "set (string_of_nat n) \<subseteq> set ''0123456789''"
proof (induction n rule: string_of_nat.induct)
  case (1 n)
  show ?case
  proof (cases "n < 10")
    case True
    then show ?thesis using digit_char_in [of n] by (subst string_of_nat.simps) simp
  next
    case False
    then show ?thesis using 1 digit_char_in [of "n mod 10"]
      by (subst string_of_nat.simps) simp
  qed
qed

lemma string_of_nat_no_star: "CHR ''*'' \<notin> set (string_of_nat n)"
  using string_of_nat_digits [of n] by auto

lemma string_of_nat_no_colon: "CHR '':'' \<notin> set (string_of_nat n)"
  using string_of_nat_digits [of n] by auto

lemma cache_key_matches:
  "glob_match (''cache:notes:'' @ string_of_nat u @ '':*'') (cache_key u url)"
proof -
  have "CHR ''*'' \<notin> set (''cache:notes:'' @ string_of_nat u @ '':'')"
    using string_of_nat_no_star [of u] by simp
  from glob_literal_prefix [OF this, of url] show ?thesis
    by (simp add: cache_key_def)
qed

lemma lookup_None_if_absent:
  "k \<notin> fst ` set (live now r) \<Longrightarrow> lookup now r k = None"
  by (simp add: lookup_def map_of_eq_None_iff)

lemma live_mono: "now \<le> now' \<Longrightarrow> set (live now' r) \<subseteq> set (live now r)"
  by (auto simp: live_def)

lemma clear_pattern_removes:
  assumes "clear_pattern f now r pat = Inr r'" and "now \<le> now'" and "glob_match pat k"
  shows "lookup now' r' k = None"
proof (rule lookup_None_if_absent, rule notI)
  assume "k \<in> fst ` set (live now' r')"
  then obtain e v where kv: "(k, e, v) \<in> set (live now' r')" by force
  from assms(1) obtain ks where ks: "redis_keys f now r pat = Inr ks"
    by (auto simp: clear_pattern_def split: sum.splits)
  then have ks_def: "ks = filter (glob_match pat) (map fst (live now r))"
    by (auto simp: redis_keys_def split: if_splits)
  show False
  proof (cases "length ks > 0")
    case True
    with assms(1) ks have "redis_del f now r ks = Inr r'"
      by (simp add: clear_pattern_def)
    then have r': "r' = filter (\<lambda>(k, e, v). k \<notin> set ks) (live now r)"
      by (auto simp: redis_del_def split: if_splits)
    from kv have "(k, e, v) \<in> set r'" by (auto simp: live_def)
    with r' have "k \<notin> set ks" and "(k, e, v) \<in> set (live now r)" by auto
    with ks_def assms(3) show False by force
  next
    case False
    with assms(1) ks have "r' = r" by (simp add: clear_pattern_def)
    with kv assms(2) have "(k, e, v) \<in> set (live now r)" using live_mono by blast
    with ks_def assms(3) have "k \<in> set ks" by force
    with False show False by auto
  qed
qed

lemma notes_write_success_clears:
  assumes "notes_write f now U w db r = (resp, db', r')" and "is_2xx (status resp)"
  shows "clearUserCache f now r U = Inr r'"
  using assms
  by (cases w)
     (auto simp: notes_write_def post_note_def put_note_def delete_note_def reply_def is_2xx_def
                 Let_def split: if_splits option.splits sum.splits)

lemma get_notes_route_miss:
  assumes "lookup now r (cache_key U url) = None"
  shows "fst (get_notes_route stringify parse f now r U url h) = h"
  using assms
  by (auto simp: get_notes_route_def cacheMiddleware_def redis_get_def
           split: sum.splits option.splits middleware_result.splits if_splits)

lemma get_notes_route_lookup_error:
  "get_fails f \<Longrightarrow> get_notes_route stringify parse f now r U url h = (h, r)"
  by (simp add: get_notes_route_def cacheMiddleware_def redis_get_def)

lemma get_notes_route_store_error:
  assumes "lookup now r (cache_key U url) = None" and "setEx_fails f"
  shows "get_notes_route stringify parse f now r U url h = (h, r)"
  using assms
  by (simp add: get_notes_route_def cacheMiddleware_def redis_get_def caching_json_def
                redis_setEx_def)

lemma todos_key_matches:
  "glob_match (''cache:todos:'' @ string_of_nat u @ '':*'')
     (''cache:todos:'' @ string_of_nat u @ '':'' @ suffix)"
proof -
  have "CHR ''*'' \<notin> set (''cache:todos:'' @ string_of_nat u @ '':'')"
    using string_of_nat_no_star [of u] by simp
  from glob_literal_prefix [OF this, of suffix] show ?thesis by simp
qed

lemma gateway_cacheKey_matches:
  "glob_match (''notes:'' @ string_of_nat u @ '':*'') (gateway_cacheKey u q)"
proof -
  have "CHR ''*'' \<notin> set (''notes:'' @ string_of_nat u @ '':'')"
    using string_of_nat_no_star [of u] by simp
  from glob_literal_prefix [OF this] show ?thesis
    by (simp add: gateway_cacheKey_def)
qed

lemma todos_write_success_clears:
  assumes "todos_write lib f now U w r = (resp, r')" and "is_2xx (status resp)"
  shows "clearUserCache_todos f now r U = Inr r'"
  using assms
  by (cases w)
     (auto simp: todos_write_def post_todo_def patch_toggle_def put_todo_service_def
                 delete_todo_service_def reply_def is_2xx_def
           split: if_splits option.splits sum.splits)

lemma gateway_post_note_success_clears:
  assumes "gateway_post_note createNote f now r U = (resp, r')" and "is_2xx (status resp)"
  shows "clear_pattern f now r (''notes:'' @ string_of_nat U @ '':*'') = Inr r'"
  using assms
  by (auto simp: gateway_post_note_def is_2xx_def Let_def
           split: if_splits sum.splits prod.splits)

lemma gateway_get_notes_miss:
  assumes "lookup now r (gateway_cacheKey U q) = None"
  shows "fst (gateway_get_notes parseInt getNotes stringify parse f now r U q)
           = fst (gateway_get_notes parseInt getNotes stringify parse f now [] U q)"
  using assms
  by (auto simp: gateway_get_notes_def redis_get_def redis_setEx_def lookup_def live_def Let_def
           split: sum.splits option.splits if_splits)

lemma digit_char_inj: "a < 10 \<Longrightarrow> b < 10 \<Longrightarrow> digit_char a = digit_char b \<Longrightarrow> a = b"
  by (simp add: digit_char_def split: if_splits) arith

lemma string_of_nat_nonempty: "string_of_nat n \<noteq> []"
  by (subst string_of_nat.simps) simp

lemma string_of_nat_inj: "string_of_nat m = string_of_nat n \<Longrightarrow> m = n"
proof (induction m arbitrary: n rule: string_of_nat.induct)
  case (1 m)
  show ?case
  proof (cases "m < 10")
    case small_m: True
    show ?thesis
    proof (cases "n < 10")
      case True
      with small_m "1.prems" show ?thesis
        by (simp add: string_of_nat.simps [of m] string_of_nat.simps [of n] digit_char_inj)
    next
      case False
      with small_m "1.prems" string_of_nat_nonempty [of "n div 10"] show ?thesis
        by (simp add: string_of_nat.simps [of m] string_of_nat.simps [of n])
    qed
  next
    case big_m: False
    show ?thesis
    proof (cases "n < 10")
      case True
      with big_m "1.prems" string_of_nat_nonempty [of "m div 10"] show ?thesis
        by (simp add: string_of_nat.simps [of m] string_of_nat.simps [of n])
    next
      case False
      with big_m "1.prems"
      have eq: "string_of_nat (m div 10) = string_of_nat (n div 10)"
        and d: "digit_char (m mod 10) = digit_char (n mod 10)"
        by (simp_all add: string_of_nat.simps [of m] string_of_nat.simps [of n])
      from "1.IH" [OF big_m eq] have "m div 10 = n div 10" .
      moreover from d have "m mod 10 = n mod 10" by (intro digit_char_inj) simp_all
      ultimately show ?thesis by (metis div_mult_mod_eq)
    qed
  qed
qed

lemma split_at_colon:
  "CHR '':'' \<notin> set a \<Longrightarrow> CHR '':'' \<notin> set b \<Longrightarrow> a @ CHR '':'' # x = b @ CHR '':'' # y
     \<Longrightarrow> a = b \<and> x = y"
proof (induction a arbitrary: b)
  case Nil
  then show ?case by (cases b) auto
next
  case (Cons c a)
  then show ?case by (cases b) auto
qed

lemma cache_key_inj:
  "cache_key u1 url1 = cache_key u2 url2 \<longleftrightarrow> u1 = u2 \<and> url1 = url2"
proof
  assume "cache_key u1 url1 = cache_key u2 url2"
  then have "string_of_nat u1 @ CHR '':'' # url1 = string_of_nat u2 @ CHR '':'' # url2"
    by (simp add: cache_key_def)
  from split_at_colon [OF string_of_nat_no_colon string_of_nat_no_colon this]
  show "u1 = u2 \<and> url1 = url2" using string_of_nat_inj by blast
qed simp

lemma gateway_cacheKey_identity:
  "gateway_cacheKey u1 q1 = gateway_cacheKey u2 q2 \<Longrightarrow> u1 = u2"
proof -
  assume "gateway_cacheKey u1 q1 = gateway_cacheKey u2 q2"
  then have "string_of_nat u1 @ CHR '':'' # (or_default ''1'' (q_page q1) @ '':''
       @ or_default ''50'' (q_limit q1) @ '':'' @ or_empty (q_search q1) @ '':''
       @ or_default ''false'' (q_archived q1) @ '':'' @ or_empty (q_pinned q1))
     = string_of_nat u2 @ CHR '':'' # (or_default ''1'' (q_page q2) @ '':''
       @ or_default ''50'' (q_limit q2) @ '':'' @ or_empty (q_search q2) @ '':''
       @ or_default ''false'' (q_archived q2) @ '':'' @ or_empty (q_pinned q2))"
    by (simp add: gateway_cacheKey_def)
  from split_at_colon [OF string_of_nat_no_colon string_of_nat_no_colon this]
  show "u1 = u2" using string_of_nat_inj by blast
qed

section \<open>Lemmas on the token store\<close>

lemma lookup_Cons:
  "lookup now ((k, e, v) # r) k' =
     (if now < e \<and> k = k' then Some v else lookup now r k')"
  by (simp add: lookup_def live_def)

lemma live_live: "now \<le> now' \<Longrightarrow> live now' (live now r) = live now' r"
  by (induction r) (auto simp: live_def)

lemma live_filter: "live now (filter P r) = filter P (live now r)"
  by (induction r) (auto simp: live_def)

lemma map_of_drop_key:
  "map_of (filter (\<lambda>(k', e, v). k' \<noteq> k) r) k' = (if k' = k then None else map_of r k')"
  by (induction r) auto

lemma lookup_setEx:
  assumes "redis_setEx f now r k s v = Inr r'" and "now \<le> now'"
  shows "lookup now' r' k' =
     (if k' = k then (if now' < now + nat s then Some v else None) else lookup now' r k')"
proof -
  from assms(1) have r': "r' = (k, now + nat s, v) # filter (\<lambda>(k', e, v'). k' \<noteq> k) (live now r)"
    by (auto simp: redis_setEx_def split: if_splits)
  have "lookup now' (filter (\<lambda>(k', e, v'). k' \<noteq> k) (live now r)) k'
          = (if k' = k then None else lookup now' r k')"
    using assms(2) by (simp add: lookup_def live_filter live_live map_of_drop_key)
  with r' show ?thesis by (auto simp: lookup_Cons)
qed

lemma ttl_setEx:
  assumes "redis_setEx f now r k s v = Inr r'"
  shows "ttl_of now r' k = Some (nat s)"
proof -
  from assms have r': "r' = (k, now + nat s, v) # filter (\<lambda>(k', e, v'). k' \<noteq> k) (live now r)"
    and pos: "0 < s"
    by (auto simp: redis_setEx_def split: if_splits)
  then show ?thesis by (simp add: ttl_of_def live_def)
qed

lemma status_auth_errors [simp]: "status (auth_errors st msg es) = st"
  by (simp add: auth_errors_def)

lemma refresh_200_iff:
  "status (auth_refresh cr f now r t) = 200 \<longleftrightarrow>
     (\<exists>tok d. t = Some tok \<and> tok \<noteq> [] \<and> jwt_verify cr now tok = Inr d \<and> \<not> get_fails f \<and>
              lookup now r (refresh_key (jwt_id d)) = Some tok)"
  by (cases t)
     (auto simp: auth_refresh_def auth_reply_def or_empty_def redis_get_def
           split: sum.splits option.splits if_splits)

lemma refresh_else_403:
  "or_empty t \<noteq> [] \<Longrightarrow> status (auth_refresh cr f now r t) \<noteq> 200
     \<Longrightarrow> status (auth_refresh cr f now r t) = 403"
  by (auto simp: auth_refresh_def auth_reply_def split: sum.splits option.splits if_splits)

lemma login_200:
  assumes "status (fst (auth_login cr f now users r un pw)) = 200"
  shows "\<exists>u \<in> set users.
           redis_setEx f now r (refresh_key (user_id u)) (30 * 24 * 60 * 60)
              (generateRefreshToken cr now (user_id u)) = Inr (snd (auth_login cr f now users r un pw))
           \<and> a_refreshToken (body (fst (auth_login cr f now users r un pw)))
               = Some (generateRefreshToken cr now (user_id u))
           \<and> a_user (body (fst (auth_login cr f now users r un pw)))
               = Some (without_password (User_get u))"
proof -
  from assms obtain u where u: "find (\<lambda>u. username u = or_empty un \<or> email u = toLowerCase (or_empty un)) users = Some u"
    by (auto simp: auth_login_def auth_reply_def split: if_splits option.splits)
  then have "u \<in> set users" by (auto simp: find_Some_iff)
  with assms u show ?thesis
    by (auto simp: auth_login_def auth_reply_def Let_def split: if_splits sum.splits)
qed


lemma logout_blacklist_state:
  assumes "logout_refresh_step cr f now r rt = Inr r1" and "at \<noteq> []"
    and "jwt_decode cr at = Some d" and "now < jwt_exp d" and "\<not> setEx_fails f"
  shows "redis_setEx f now r1 (blacklist_key at) (int (jwt_exp d) - int now) ''revoked''
           = Inr (snd (auth_logout cr f now r rt (Some at)))"
  using assms
  by (auto simp: auth_logout_def Let_def or_empty_def jwt_verify_def redis_setEx_def
           split: sum.splits)

lemma logout_expired_noop:
  assumes "jwt_decode cr at = Some d" and "jwt_exp d \<le> now"
  shows "snd (auth_logout cr f now r rt (Some at)) = snd (auth_logout cr f now r rt None)"
  using assms
  by (auto simp: auth_logout_def Let_def or_empty_def jwt_verify_def split: sum.splits)

lemma verify_blacklisted:
  assumes "lookup now r (blacklist_key t) = Some ''revoked''"
  shows "status (auth_verify cr f now users r t) = 401"
    and "\<not> get_fails f \<Longrightarrow> auth_verify cr f now users r t = auth_reply 401 False ''Token revoked''"
  using assms
  by (auto simp: auth_verify_def redis_get_def or_empty_def auth_reply_def split: sum.splits)

lemma string_of_nat_examples:
  "string_of_nat 0 = ''0''" "string_of_nat (Suc 0) = ''1''" "string_of_nat 1 = ''1''"
  "string_of_nat 100 = ''100''" "string_of_nat 200 = ''200''"
  by (simp_all add: string_of_nat.simps digit_char_def)

lemmas ex_defs = ex_login1_def ex_login2_def ex_logout_def ex_crypto_def ex_users_def ex_sign_def
  ex_payloads_def no_faults_def string_of_nat_examples Let_def

lemmas auth_defs = auth_login_def auth_refresh_def auth_logout_def auth_verify_def auth_reply_def
  auth_errors_def required_error_def
  logout_refresh_step_def jwt_verify_def generateToken_def generateRefreshToken_def
  refresh_key_def blacklist_key_def or_empty_def toLowerCase_def to_lower_char_def
  redis_get_def redis_setEx_def redis_del_def lookup_def ttl_of_def live_def
  without_password_def User_get_def

section \<open>Lemmas on the monolith's notes routes\<close>



lemma distinct_key_unique:
  "distinct (map k xs) \<Longrightarrow> x \<in> set xs \<Longrightarrow> y \<in> set xs \<Longrightarrow> k x = k y \<Longrightarrow> x = y"
  by (meson distinct_map inj_onD)

lemma filter_Cons_mem: "filter P xs = x # ys \<Longrightarrow> x \<in> set xs \<and> P x"
proof -
  assume "filter P xs = x # ys"
  then have "x \<in> set (filter P xs)" by simp
  then show ?thesis by simp
qed

lemma filter_nonempty_mem: "filter P xs \<noteq> [] \<Longrightarrow> \<exists>x \<in> set xs. P x"
  by (cases "filter P xs") (auto dest: filter_Cons_mem)

lemma set_note_fields_keeps [simp]:
  "note_id (set_note_fields now b n) = note_id n"
  "note_user_id (set_note_fields now b n) = note_user_id n"
  by (simp_all add: set_note_fields_def)










lemma order_notes_set [simp]: "set (order_notes ns) = set ns"
  by (simp add: order_notes_def)







section \<open>Lemmas on the monolith's todos routes\<close>

lemma set_todo_fields_keeps [simp]:
  "todo_id (set_todo_fields now b n) = todo_id n"
  "todo_user_id (set_todo_fields now b n) = todo_user_id n"
  by (simp_all add: set_todo_fields_def)


lemma todo_id_owner_unique:
  assumes "todos_wf db" and "owned_todo U i db"
    and "x \<in> set (todo_rows db)" and "todo_id x = i"
  shows "todo_user_id x = U"
proof -
  from assms(2) obtain n where n: "n \<in> set (todo_rows db)" "todo_id n = i" "todo_user_id n = U"
    unfolding owned_todo_def by (auto dest: filter_nonempty_mem)
  from distinct_key_unique [of todo_id "todo_rows db" x n] assms(1,3,4) n
  show ?thesis by (auto simp: todos_wf_def)
qed







lemma order_todos_set [simp]: "set (order_todos ns) = set ns"
  by (simp add: order_todos_def)






section \<open>Lemmas on the completion timestamp\<close>

lemma find_filter: "find P xs = (case filter P xs of [] \<Rightarrow> None | x # ys \<Rightarrow> Some x)"
  by (induction xs) auto

lemma filter_map_key:
  "(\<And>x. k (g x) = k x) \<Longrightarrow> filter (\<lambda>x. k x = i) (map g xs) = map g (filter (\<lambda>x. k x = i) xs)"
  by (induction xs) auto

lemma owned_filter_eq:
  assumes "todos_wf db" and "owned_todo U i db"
  shows "filter (\<lambda>t. todo_id t = i) (todo_rows db)
           = filter (\<lambda>t. todo_id t = i \<and> todo_user_id t = U) (todo_rows db)"
  by (rule filter_cong) (use todo_id_owner_unique [OF assms] in auto)

lemma put_todo_sets_stamp:
  assumes "todos_wf db" and "status (fst (put_todo lib f now U i b db)) = 200"
    and "tb_completed b = Some v"
  shows "\<exists>t'. find (\<lambda>t. todo_id t = i) (todo_rows (snd (put_todo lib f now U i b db))) = Some t'
           \<and> rows (body (fst (put_todo lib f now U i b db))) = [t']
           \<and> completed t' = truthy v
           \<and> completed_at t' = (if truthy v then Some now else None)"
proof -
  let ?c = "\<lambda>t. todo_id t = i \<and> todo_user_id t = U"
  let ?db' = "update_todos_where ?c (set_todo_fields now b) db"
  from assms(2) have own: "owned_todo U i db" and ok: "valid_todo_put lib b"
    "\<not> db_fails f 0" "\<not> db_fails f 1" "\<not> db_fails f 2"
    by (auto simp: put_todo_def owned_todo_def reply_def Let_def split: if_splits)
  then have res: "put_todo lib f now U i b db
      = (reselect_todo 200 ''Todo updated successfully'' ''Server error while updating todo'' i ?db', ?db')"
    by (simp add: put_todo_def owned_todo_def Let_def)
  from own obtain t ts where t: "filter ?c (todo_rows db) = t # ts"
    unfolding owned_todo_def by (cases "filter ?c (todo_rows db)") auto
  then have ct: "?c t" using filter_Cons_mem by fast
  have "filter (\<lambda>t. todo_id t = i) (todo_rows ?db')
          = map (\<lambda>t. if ?c t then set_todo_fields now b t else t) (filter (\<lambda>t. todo_id t = i) (todo_rows db))"
    unfolding update_todos_where_def by (simp, rule filter_map_key) simp
  also have "\<dots> = map (\<lambda>t. if ?c t then set_todo_fields now b t else t) (t # ts)"
    using owned_filter_eq [OF assms(1) own] t by simp
  finally have sel: "filter (\<lambda>t. todo_id t = i) (todo_rows ?db')
      = set_todo_fields now b t # map (\<lambda>t. if ?c t then set_todo_fields now b t else t) ts"
    using ct by simp
  show ?thesis
    unfolding res using sel assms(3)
    by (simp add: find_filter reselect_todo_def reply_def set_todo_fields_def)
qed

lemma toggle_todo_flips:
  assumes "todos_wf db" and "status (fst (toggle_todo f now U i db)) = 200"
  shows "\<exists>t t'. find (\<lambda>t. todo_id t = i) (todo_rows db) = Some t
           \<and> find (\<lambda>t. todo_id t = i) (todo_rows (snd (toggle_todo f now U i db))) = Some t'
           \<and> rows (body (fst (toggle_todo f now U i db))) = [t']
           \<and> completed t' = (\<not> completed t)
           \<and> completed_at t' = (if completed t then None else Some now)"
proof -
  let ?c = "\<lambda>t. todo_id t = i \<and> todo_user_id t = U"
  from assms(2) have own: "owned_todo U i db" and ok:
    "\<not> db_fails f 0" "\<not> db_fails f 1" "\<not> db_fails f 2"
    by (auto simp: toggle_todo_def owned_todo_def reply_def Let_def split: if_splits list.splits)
  from own obtain t ts where t: "filter ?c (todo_rows db) = t # ts"
    unfolding owned_todo_def by (cases "filter ?c (todo_rows db)") auto
  with owned_filter_eq [OF assms(1) own]
  have t_all: "filter (\<lambda>t. todo_id t = i) (todo_rows db) = t # ts" by simp
  define u where "u = (\<lambda>x::Todo. if \<not> completed t
      then x\<lparr>completed := True, completed_at := Some now, todo_updated_at := now\<rparr>
      else x\<lparr>completed := False, completed_at := None, todo_updated_at := now\<rparr>)"
  let ?db' = "update_todos_where (\<lambda>x. todo_id x = i) u db"
  have res: "toggle_todo f now U i db
      = (reselect_todo 200 (if \<not> completed t then ''Todo marked as completed''
                             else ''Todo marked as pending'')
           ''Server error while toggling todo status'' i ?db', ?db')"
    using t ok by (simp add: toggle_todo_def Let_def u_def)
  have kid: "todo_id (if todo_id x = i then u x else x) = todo_id x" for x
    by (simp add: u_def)
  have "filter (\<lambda>t. todo_id t = i) (todo_rows ?db')
          = map (\<lambda>x. if todo_id x = i then u x else x) (filter (\<lambda>t. todo_id t = i) (todo_rows db))"
    unfolding update_todos_where_def using filter_map_key [of todo_id _ i "todo_rows db", OF kid]
    by simp
  with t_all filter_Cons_mem [OF t_all]
  have sel: "filter (\<lambda>t. todo_id t = i) (todo_rows ?db')
      = u t # map (\<lambda>x. if todo_id x = i then u x else x) ts"
    by simp
  show ?thesis
    unfolding res using sel t_all
    by (simp add: find_filter reselect_todo_def reply_def u_def)
qed

lemma Todo_beforeSave_changed:
  "completed_at (Todo_beforeSave now True t) = (if completed t then Some now else None)"
  by (simp add: Todo_beforeSave_def)

lemma set_todo_fields_stamp_ok: "stamp_ok t \<Longrightarrow> stamp_ok (set_todo_fields now b t)"
  by (cases "tb_completed b") (auto simp: stamp_ok_def set_todo_fields_def)

lemma update_todos_where_stamp_ok:
  assumes "list_all stamp_ok (todo_rows db)" and "\<And>x. stamp_ok x \<Longrightarrow> stamp_ok (u x)"
  shows "list_all stamp_ok (todo_rows (update_todos_where c u db))"
  using assms by (auto simp: update_todos_where_def list_all_iff)

lemma todos_router_stamp_ok:
  assumes "list_all stamp_ok (todo_rows db)"
  shows "list_all stamp_ok (todo_rows (snd (todos_router lib f now U req db)))"
proof (cases req)
  case (PostTodo b)
  have "list_all stamp_ok (todo_rows (insert_todo now U b db))"
    using assms by (simp add: insert_todo_def stamp_ok_def)
  with assms PostTodo show ?thesis by (simp add: todos_router_def create_todo_def)
next
  case (PutTodo i b)
  have "list_all stamp_ok (todo_rows (update_todos_where c (set_todo_fields now b) db))" for c
    using update_todos_where_stamp_ok [OF assms] set_todo_fields_stamp_ok by blast
  with assms PutTodo show ?thesis by (simp add: todos_router_def put_todo_def Let_def)
next
  case (ToggleTodo i)
  have a: "list_all stamp_ok (todo_rows (update_todos_where c
             (\<lambda>x. x\<lparr>completed := True, completed_at := Some now, todo_updated_at := now\<rparr>) db))" for c
    by (rule update_todos_where_stamp_ok [OF assms]) (simp add: stamp_ok_def)
  have b: "list_all stamp_ok (todo_rows (update_todos_where c
             (\<lambda>x. x\<lparr>completed := False, completed_at := None, todo_updated_at := now\<rparr>) db))" for c
    by (rule update_todos_where_stamp_ok [OF assms]) (simp add: stamp_ok_def)
  from a b assms ToggleTodo show ?thesis
    by (auto simp: todos_router_def toggle_todo_def Let_def split: list.splits)
next
  case (DeleteTodo i)
  with assms show ?thesis
    by (auto simp: todos_router_def delete_todo_def list_all_iff)
qed (use assms in \<open>auto simp: todos_router_def\<close>)

lemma todos_run_stamp_ok:
  "list_all stamp_ok (todo_rows db) \<Longrightarrow> list_all stamp_ok (todo_rows (todos_run lib steps db))"
proof (induction steps arbitrary: db)
  case Nil
  then show ?case by simp
next
  case (Cons s steps)
  obtain f now U req where s: "s = (f, now, U, req)" by (cases s) auto
  from Cons.IH [OF todos_router_stamp_ok [OF Cons.prems, of lib f now U req]] s
  show ?case by simp
qed

section \<open>Lemmas on the user object\<close>

lemma without_password_keys: "''password'' \<notin> set (map fst (without_password obj))"
  by (auto simp: without_password_def)

lemma user_keys_auth_reply [simp]: "user_keys (auth_reply st ok msg) = []"
  by (simp add: user_keys_def auth_reply_def)

lemma user_keys_auth_errors [simp]: "user_keys (auth_errors st msg es) = []"
  by (simp add: user_keys_def auth_errors_def)

lemma user_keys_user_reply: "''password'' \<notin> set (user_keys (user_reply st msg u token))"
  using without_password_keys [of "User_get u"]
  by (simp add: user_keys_def user_reply_def User_toJSON_def)

lemma User_toJSON_ignores_password: "User_toJSON (u\<lparr>password := p\<rparr>) = User_toJSON u"
  by (simp add: User_toJSON_def User_get_def without_password_def)

lemma User_create_cases:
  "User_create lib cr fl now db nm em un pw = (res, db') \<Longrightarrow>
     (\<exists>e. res = Inl e \<and> db' = db)
     \<or> (\<exists>u. res = Inr u \<and> password u = bcrypt_hash cr pw \<and> user_rows db' = user_rows db @ [u])"
  by (auto simp: User_create_def User_beforeSave_def Let_def split: if_splits)

lemma register_keys: "''password'' \<notin> set (user_keys (fst (register lib cr f now db b)))"
  by (auto simp: register_def Let_def user_keys_user_reply
        split: option.splits sum.splits create_error.splits prod.splits)

lemma login_keys: "''password'' \<notin> set (user_keys (login cr f now db un pw))"
  by (auto simp: login_def user_keys_user_reply split: option.splits)

lemma demo_keys: "''password'' \<notin> set (user_keys (fst (demo lib cr f now db)))"
  by (auto simp: demo_def user_keys_user_reply split: option.splits sum.splits prod.splits)

lemma me_keys: "''password'' \<notin> set (user_keys (me cr f now db h))"
  using without_password_keys
  by (auto simp: me_def user_keys_def auth_reply_def split: option.splits sum.splits)

lemma register_stores_hash:
  "list_all (\<lambda>u. u \<in> set (user_rows db) \<or> password u = bcrypt_hash cr (or_empty (r_password b)))
     (user_rows (snd (register lib cr f now db b)))"
proof -
  obtain res db' where c: "User_create lib cr (db_fails f 1) now db (trim (or_empty (r_name b)))
      (normalizeEmail lib (or_empty (r_email b))) (trim (or_empty (r_username b)))
      (or_empty (r_password b)) = (res, db')"
    by (cases "User_create lib cr (db_fails f 1) now db (trim (or_empty (r_name b)))
      (normalizeEmail lib (or_empty (r_email b))) (trim (or_empty (r_username b)))
      (or_empty (r_password b))") auto
  from User_create_cases [OF c] have
    "list_all (\<lambda>u. u \<in> set (user_rows db) \<or> password u = bcrypt_hash cr (or_empty (r_password b)))
       (user_rows db')"
    by (auto simp: list_all_iff)
  with c show ?thesis
    by (auto simp: register_def Let_def list_all_iff
          split: option.splits sum.splits create_error.splits)
qed

lemma demo_stores_hash:
  "list_all (\<lambda>u. u \<in> set (user_rows db) \<or> password u = bcrypt_hash cr ''demo123'')
     (user_rows (snd (demo lib cr f now db)))"
proof -
  obtain res db' where c: "User_create lib cr (db_fails f 1) now db ''Demo User''
      ''demo@micronote.com'' ''demo'' ''demo123'' = (res, db')"
    by (cases "User_create lib cr (db_fails f 1) now db ''Demo User''
      ''demo@micronote.com'' ''demo'' ''demo123''") auto
  from User_create_cases [OF c] have
    "list_all (\<lambda>u. u \<in> set (user_rows db) \<or> password u = bcrypt_hash cr ''demo123'') (user_rows db')"
    by (auto simp: list_all_iff)
  with c show ?thesis
    by (auto simp: demo_def list_all_iff split: option.splits sum.splits)
qed

lemma register_errors_empty_iff: "register_errors lib b = [] \<longleftrightarrow> valid_register lib b"
  by (auto simp: register_errors_def rejected_def valid_register_def Let_def)

lemma User_validation_errors_empty_iff:
  "User_validation_errors lib u = [] \<longleftrightarrow> User_validate lib u"
  by (auto simp: User_validation_errors_def violated_def User_validate_def)

lemma User_validate_password:
  "password_ok p1 \<Longrightarrow> password_ok p2 \<Longrightarrow>
     User_validate lib (u\<lparr>password := p1\<rparr>) = User_validate lib (u\<lparr>password := p2\<rparr>)"
  by (simp add: User_validate_def password_ok_def)

lemma register_ignores_password:
  assumes "password_ok p1" and "password_ok p2"
  shows "fst (register lib cr f now db (b\<lparr>r_password := Some p1\<rparr>))
           = fst (register lib cr f now db (b\<lparr>r_password := Some p2\<rparr>))"
  using assms
  by (auto simp: register_def Let_def valid_register_def or_empty_def User_create_def
        User_beforeSave_def User_validate_def password_ok_def user_reply_def User_toJSON_def
        User_get_def without_password_def register_errors_def rejected_def
        User_validation_errors_def violated_def
      split: option.splits)


lemma ex_passwords_ok: "password_ok ''hunter22'' \<and> password_ok ''secret99''"
    by (simp add: password_ok_def notEmpty_def trim_def is_space_def)

lemma ex_register_valid: "valid_register ex_library ex_register"
  by (simp add: valid_register_def ex_register_def ex_library_def or_empty_def trim_def is_space_def
      matches_username_def is_word_char_def)


lemma ex_lower: "toLowerCase ''Bob@Example.com'' = ''bob@example.com''"
  "toLowerCase ''bob@example.com'' = ''bob@example.com''"
  by code_simp+

lemma ex_trim: "trim ''Bob'' = ''Bob''" "trim ''bob_1'' = ''bob_1''" "trim ''bob@example.com'' = ''bob@example.com''"
  "trim ''hunter22'' = ''hunter22''"
  by (simp_all add: trim_def is_space_def)

lemma ex_create_evaluated:
  "User_create ex_library ex_crypto False 100 ex_user_table ''Bob'' ''bob@example.com'' ''bob_1'' ''hunter22''
     = (Inr \<lparr>user_id = 2, name = ''Bob'', email = ''bob@example.com'', username = ''bob_1'',
              password = ''$2a$12$hunter22'', user_created_at = 100, user_updated_at = 100\<rparr>,
        \<lparr>user_rows = ex_users @
           [\<lparr>user_id = 2, name = ''Bob'', email = ''bob@example.com'', username = ''bob_1'',
              password = ''$2a$12$hunter22'', user_created_at = 100, user_updated_at = 100\<rparr>],
         users_next_id = 3\<rparr>)"
  by (simp add: User_create_def User_validate_def User_beforeSave_def notEmpty_def ex_trim
        matches_username_def is_word_char_def ex_user_table_def ex_users_def ex_library_def
        ex_crypto_def ex_lower Let_def)


lemma ex_no_duplicate:
  "find (\<lambda>u. email u = ''bob@example.com'' \<or> username u = ''bob_1'') ex_users = None"
  by (simp add: ex_users_def)

lemma ex_register_evaluated:
  "register ex_library ex_crypto no_faults 100 ex_user_table ex_register
     = (user_reply 201 ''User registered successfully''
          \<lparr>user_id = 2, name = ''Bob'', email = ''bob@example.com'', username = ''bob_1'',
            password = ''$2a$12$hunter22'', user_created_at = 100, user_updated_at = 100\<rparr>
          (generateToken ex_crypto 100 2),
        \<lparr>user_rows = ex_users @
           [\<lparr>user_id = 2, name = ''Bob'', email = ''bob@example.com'', username = ''bob_1'',
              password = ''$2a$12$hunter22'', user_created_at = 100, user_updated_at = 100\<rparr>],
         users_next_id = 3\<rparr>)"
proof -
  have fields: "trim (or_empty (r_name ex_register)) = ''Bob''"
    "normalizeEmail ex_library (or_empty (r_email ex_register)) = ''bob@example.com''"
    "trim (or_empty (r_username ex_register)) = ''bob_1''"
    "or_empty (r_password ex_register) = ''hunter22''"
    by (simp_all add: ex_register_def or_empty_def ex_trim ex_lower ex_library_def)
  have nf: "\<not> db_fails no_faults 0" "\<not> db_fails no_faults 1" by (simp_all add: no_faults_def)
  have rows: "user_rows ex_user_table = ex_users" by (simp add: ex_user_table_def)
  show ?thesis
    unfolding register_def Let_def fields
    using ex_register_valid nf ex_no_duplicate ex_create_evaluated by (simp add: ex_lower rows)
qed


lemmas mono_defs = notes_router_def todos_router_def get_note_def put_note_mono_def delete_note_mono_def
  pin_note_def create_note_def list_notes_def get_todo_def put_todo_def delete_todo_def toggle_todo_def
  create_todo_def list_todos_def reselect_note_def reselect_todo_def update_notes_where_def
  update_todos_where_def set_note_fields_def set_todo_fields_def insert_note_def insert_todo_def
  reply_def reply_page_def note_target_def todo_target_def note_invalid_def todo_invalid_def
  owned_note_def owned_todo_def foreign_notes_def foreign_todos_def notes_wf_def todos_wf_def
  valid_note_put_def valid_note_post_def valid_todo_put_def valid_todo_post_def valid_tags_def
  valid_priority_def valid_category_def valid_dueDate_def trim_def or_empty_def
  ex_library_def ex_note_table_def ex_todo_table_def ex_empty_title_def ex_complete_def
  no_faults_def Let_def

section \<open>Claims\<close>

text \<open>
  C1. After a successful create, update or delete by user \<open>U\<close>, no cache entry keyed
  under \<open>U\<close> and the resource exists any more when the response is sent: every write
  handler awaits the deletion of the user's keys before \<open>res.json\<close>, so the state the
  handler returns is the state at the response. This holds for the notes service
  (keys \<open>cache:notes:U:url\<close>), for the todos service (keys \<open>cache:todos:U:...\<close>) and
  for the gateway's \<open>POST /api/notes\<close> (keys \<open>notes:U:...\<close>). Hence at any later
  second a read of \<open>U\<close> through the notes service's cache middleware answers with the
  downstream handler's fresh response, and a read through the gateway answers as it does
  on an empty cache, never with a value cached before the write. The todos service reads
  from the database on every request.
\<close>

theorem write_invalidates_user_cache:
  "(is_2xx (status (fst (notes_write f now U w db r))) \<and> now \<le> now' \<longrightarrow>
      lookup now' (snd (snd (notes_write f now U w db r))) (cache_key U url) = None \<and>
      fst (get_notes_route stringify parse f' now' (snd (snd (notes_write f now U w db r))) U url h)
        = h)
   \<and> (is_2xx (status (fst (todos_write lib f now U tw r))) \<and> now \<le> now' \<longrightarrow>
      lookup now' (snd (todos_write lib f now U tw r))
        (''cache:todos:'' @ string_of_nat U @ '':'' @ url) = None)
   \<and> (is_2xx (status (fst (gateway_post_note createNote f now r U))) \<and> now \<le> now' \<longrightarrow>
      lookup now' (snd (gateway_post_note createNote f now r U)) (gateway_cacheKey U q) = None \<and>
      fst (gateway_get_notes parseInt getNotes gstringify gparse f' now'
             (snd (gateway_post_note createNote f now r U)) U q)
        = fst (gateway_get_notes parseInt getNotes gstringify gparse f' now' [] U q))"
proof (intro conjI impI)
  assume a: "is_2xx (status (fst (notes_write f now U w db r))) \<and> now \<le> now'"
  obtain resp db' r' where w: "notes_write f now U w db r = (resp, db', r')"
    by (cases "notes_write f now U w db r") auto
  with a have "clearUserCache f now r U = Inr r'"
    using notes_write_success_clears [of f now U w db r resp db' r'] by simp
  then have "clear_pattern f now r (''cache:notes:'' @ string_of_nat U @ '':*'') = Inr r'"
    by (simp add: clearUserCache_def)
  from clear_pattern_removes [OF this _ cache_key_matches] a
  have none: "lookup now' r' (cache_key U url) = None" by simp
  with w show "lookup now' (snd (snd (notes_write f now U w db r))) (cache_key U url) = None"
    by simp
  from get_notes_route_miss [OF none] w
  show "fst (get_notes_route stringify parse f' now' (snd (snd (notes_write f now U w db r))) U url h)
          = h"
    by simp
next
  assume a: "is_2xx (status (fst (todos_write lib f now U tw r))) \<and> now \<le> now'"
  obtain resp r' where w: "todos_write lib f now U tw r = (resp, r')"
    by (cases "todos_write lib f now U tw r") auto
  with a have "clearUserCache_todos f now r U = Inr r'"
    using todos_write_success_clears [of lib f now U tw r resp r'] by simp
  then have "clear_pattern f now r (''cache:todos:'' @ string_of_nat U @ '':*'') = Inr r'"
    by (simp add: clearUserCache_todos_def)
  from clear_pattern_removes [OF this _ todos_key_matches] a w
  show "lookup now' (snd (todos_write lib f now U tw r))
          (''cache:todos:'' @ string_of_nat U @ '':'' @ url) = None"
    by simp
next
  assume a: "is_2xx (status (fst (gateway_post_note createNote f now r U))) \<and> now \<le> now'"
  obtain resp r' where w: "gateway_post_note createNote f now r U = (resp, r')"
    by (cases "gateway_post_note createNote f now r U") auto
  with a have "clear_pattern f now r (''notes:'' @ string_of_nat U @ '':*'') = Inr r'"
    using gateway_post_note_success_clears [of createNote f now r U resp r'] by simp
  from clear_pattern_removes [OF this _ gateway_cacheKey_matches] a
  have none: "lookup now' r' (gateway_cacheKey U q) = None" by simp
  with w show "lookup now' (snd (gateway_post_note createNote f now r U)) (gateway_cacheKey U q) = None"
    by simp
  from gateway_get_notes_miss [OF none] w
  show "fst (gateway_get_notes parseInt getNotes gstringify gparse f' now'
               (snd (gateway_post_note createNote f now r U)) U q)
          = fst (gateway_get_notes parseInt getNotes gstringify gparse f' now' [] U q)"
    by simp
qed

theorem write_invalidates_user_cache_witness:
  "is_2xx (status (fst (notes_write no_faults 100 1 (CreateNote ex_note_body) ex_notes_db ex_shared_cache)))
   \<and> (100::nat) \<le> 150
   \<and> lookup 100 ex_shared_cache (cache_key 1 ''/?page=1'') = Some ''old''
   \<and> lookup 150
         (snd (snd (notes_write no_faults 100 1 (CreateNote ex_note_body) ex_notes_db ex_shared_cache)))
         (cache_key 1 ''/?page=1'') = None
   \<and> fst (get_notes_route id Some no_faults 150
         (snd (snd (notes_write no_faults 100 1 (CreateNote ex_note_body) ex_notes_db ex_shared_cache)))
         1 ''/?page=1'' \<lparr>status = 200, body = ''fresh''\<rparr>) = \<lparr>status = 200, body = ''fresh''\<rparr>
   \<and> is_2xx (status (fst (todos_write ex_library no_faults 100 1 (RemoveTodo (Some (7::nat)))
         ex_shared_cache)))
   \<and> lookup 100 ex_shared_cache (''cache:todos:'' @ string_of_nat 1 @ '':'' @ ''/?page=1'')
         = Some ''old todos''
   \<and> lookup 150 (snd (todos_write ex_library no_faults 100 1 (RemoveTodo (Some (7::nat)))
         ex_shared_cache)) (''cache:todos:'' @ string_of_nat 1 @ '':'' @ ''/?page=1'') = None
   \<and> is_2xx (status (fst (gateway_post_note (Inr (True, ''Note created'', 7::nat)) no_faults 100
         ex_shared_cache 1)))
   \<and> lookup 100 ex_shared_cache (gateway_cacheKey 1 ex_query) = Some ''old list''
   \<and> lookup 150 (snd (gateway_post_note (Inr (True, ''Note created'', 7::nat)) no_faults 100
         ex_shared_cache 1)) (gateway_cacheKey 1 ex_query) = None
   \<and> fst (gateway_get_notes (\<lambda>s. None) (\<lambda>q. Inr ''fresh list'') id Some no_faults 150
         (snd (gateway_post_note (Inr (True, ''Note created'', 7::nat)) no_faults 100
            ex_shared_cache 1)) 1 ex_query)
       = \<lparr>status = 200, body = Payload ''fresh list''\<rparr>"
proof -
  have n_ok: "is_2xx (status (fst (notes_write no_faults 100 1 (CreateNote ex_note_body)
      ex_notes_db ex_shared_cache)))"
    by code_simp
  have t_ok: "is_2xx (status (fst (todos_write ex_library no_faults 100 1
      (RemoveTodo (Some (7::nat))) ex_shared_cache)))"
    by code_simp
  have g_ok: "is_2xx (status (fst (gateway_post_note (Inr (True, ''Note created'', 7::nat))
      no_faults 100 ex_shared_cache 1)))"
    by code_simp
  have later: "(100::nat) \<le> 150" by simp
  have n_before: "lookup 100 ex_shared_cache (cache_key 1 ''/?page=1'') = Some ''old''"
    by code_simp
  have t_before: "lookup 100 ex_shared_cache
      (''cache:todos:'' @ string_of_nat 1 @ '':'' @ ''/?page=1'') = Some ''old todos''"
    by code_simp
  have g_before: "lookup 100 ex_shared_cache (gateway_cacheKey 1 ex_query) = Some ''old list''"
    by code_simp
  have empty: "fst (gateway_get_notes (\<lambda>s. None) (\<lambda>q. Inr ''fresh list'') id Some no_faults 150
      [] 1 ex_query) = \<lparr>status = 200, body = Payload ''fresh list''\<rparr>"
    by code_simp
  from write_invalidates_user_cache [where f = no_faults and now = 100 and U = 1
      and w = "CreateNote ex_note_body" and db = ex_notes_db and r = ex_shared_cache
      and now' = 150 and url = "''/?page=1''" and stringify = id and parse = Some
      and f' = no_faults and h = "\<lparr>status = 200, body = ''fresh''\<rparr>" and lib = ex_library
      and tw = "RemoveTodo (Some (7::nat))"
      and createNote = "Inr (True, ''Note created'', 7::nat)" and q = ex_query
      and parseInt = "\<lambda>s. None" and getNotes = "\<lambda>q. Inr ''fresh list''"
      and gstringify = id and gparse = Some]
    n_ok t_ok g_ok later n_before t_before g_before empty
  show ?thesis by simp
qed

text \<open>
  C2. Key derivation is a function of identity and request, and keys of different
  identities never collide, but the gateway's key does collide across query parameter
  sets: \<open>pinned || ''\<close> renders an absent \<open>pinned\<close> and an empty one alike (and the
  fields are joined by \<open>:\<close> unescaped). Here user 1 asks once without a query and once
  with \<open>?pinned=\<close>: the keys are equal, while the requests sent downstream differ (no
  pinned filter against \<open>pinned = false\<close>), so the second request is answered with the
  first one's cached list.
\<close>

theorem gateway_cache_key_collision:
  "gateway_cacheKey 1 ex_query = gateway_cacheKey 1 (ex_query\<lparr>q_pinned := Some []\<rparr>)
   \<and> getNotes_request_of parseInt 1 ex_query
       \<noteq> getNotes_request_of parseInt 1 (ex_query\<lparr>q_pinned := Some []\<rparr>)"
  by (simp add: gateway_cacheKey_def getNotes_request_of_def ex_query_def or_empty_def)

text \<open>
  C3. The notes service's wrapper stores the body whatever the status. User 1 reads
  \<open>/\<close> with an empty cache while the handler fails and answers 500: the error body is
  stored for 300 seconds (until second 400). One second later the handler would answer 200
  with fresh notes, but the read is a hit and returns the stored error body with status 200.
\<close>

theorem error_response_is_cached:
  "get_notes_route id Some no_faults 100 [] 1 ''/''
       \<lparr>status = 500, body = ''Failed to retrieve notes''\<rparr>
     = (\<lparr>status = 500, body = ''Failed to retrieve notes''\<rparr>,
        [(cache_key 1 ''/'', 400, ''Failed to retrieve notes'')])
   \<and> get_notes_route id Some no_faults 101
         [(cache_key 1 ''/'', 400, ''Failed to retrieve notes'')] 1 ''/''
         \<lparr>status = 200, body = ''fresh notes''\<rparr>
     = (\<lparr>status = 200, body = ''Failed to retrieve notes''\<rparr>,
        [(cache_key 1 ''/'', 400, ''Failed to retrieve notes'')])"
  by code_simp

text \<open>
  C4. In the gateway's \<open>GET /api/notes\<close> the cache lookup stands inside the handler's
  \<open>try\<close>: when \<open>redisClient.get\<close> rejects, the request is answered 500 although the
  notes service would have answered.
\<close>

theorem gateway_read_fails_on_cache_error:
  "gateway_get_notes (\<lambda>s. None) (\<lambda>q. Inr ''notes of user 1'') id Some
       (no_faults\<lparr>get_fails := True\<rparr>) 100 [] 1 ex_query
     = (\<lparr>status = 500, body = Failure ''Failed to retrieve notes''\<rparr>, [])"
  by code_simp

text \<open>
  C5. In the notes service \<open>clearUserCache\<close> is awaited inside the handler's \<open>try\<close>
  and has no \<open>catch\<close> of its own: when \<open>redisClient.keys\<close> rejects after the note
  has been inserted, the request is answered 500 \<open>Failed to create note\<close>, and the note
  stays in the table.
\<close>

theorem create_fails_on_invalidation_error:
  "post_note (no_faults\<lparr>keys_fails := True\<rparr>) 100 1 ex_note_body ex_notes_db ex_cache
     = (reply 500 False ''Failed to create note'' [],
        \<lparr>note_rows = [new_note 100 1 1 ex_note_body], notes_next_id = 2\<rparr>, ex_cache)"
  by code_simp

text \<open>
  C6. \<open>POST /refresh\<close> of the auth service answers 200 exactly when the presented
  token verifies and is, character for character, the value stored under
  \<open>refresh_token:id\<close> for the identity in its payload; any other presented token is
  answered 403. A successful \<open>POST /login\<close> stores the new refresh token under the user's
  key with \<open>setEx\<close>, replacing whatever was stored, so from then on every other token
  of that identity, an earlier refresh token included, is answered 403. (An absent or empty
  token is answered 401 \<open>Refresh token required\<close> before any validation.)
\<close>

theorem refresh_token_validation:
  "(status (auth_refresh cr f now r t) = 200 \<longleftrightarrow>
      (\<exists>tok d. t = Some tok \<and> tok \<noteq> [] \<and> jwt_verify cr now tok = Inr d \<and> \<not> get_fails f \<and>
               lookup now r (refresh_key (jwt_id d)) = Some tok))
   \<and> (or_empty t \<noteq> [] \<and> status (auth_refresh cr f now r t) \<noteq> 200
        \<longrightarrow> status (auth_refresh cr f now r t) = 403)
   \<and> (status (fst (auth_login cr g t0 users r0 un pw)) = 200 \<longrightarrow>
        (\<exists>u \<in> set users.
           a_refreshToken (body (fst (auth_login cr g t0 users r0 un pw)))
             = Some (generateRefreshToken cr t0 (user_id u))
           \<and> (\<forall>t1. t0 \<le> t1 \<and> t1 < t0 + 30 * 24 * 60 * 60 \<longrightarrow>
                 lookup t1 (snd (auth_login cr g t0 users r0 un pw)) (refresh_key (user_id u))
                   = Some (generateRefreshToken cr t0 (user_id u)))
           \<and> (\<forall>t1 old d f'. t0 \<le> t1 \<and> old \<noteq> [] \<and> old \<noteq> generateRefreshToken cr t0 (user_id u)
                   \<and> jwt_decode cr old = Some d \<and> jwt_id d = user_id u \<longrightarrow>
                 status (auth_refresh cr f' t1 (snd (auth_login cr g t0 users r0 un pw)) (Some old)) = 403)))"
proof (intro conjI impI)
  show "status (auth_refresh cr f now r t) = 200 \<longleftrightarrow>
      (\<exists>tok d. t = Some tok \<and> tok \<noteq> [] \<and> jwt_verify cr now tok = Inr d \<and> \<not> get_fails f \<and>
               lookup now r (refresh_key (jwt_id d)) = Some tok)"
    by (rule refresh_200_iff)
next
  assume "or_empty t \<noteq> [] \<and> status (auth_refresh cr f now r t) \<noteq> 200"
  then show "status (auth_refresh cr f now r t) = 403" using refresh_else_403 by blast
next
  let ?L = "auth_login cr g t0 users r0 un pw"
  assume "status (fst ?L) = 200"
  from login_200 [OF this] obtain u where u: "u \<in> set users"
    and set: "redis_setEx g t0 r0 (refresh_key (user_id u)) (30 * 24 * 60 * 60)
                (generateRefreshToken cr t0 (user_id u)) = Inr (snd ?L)"
    and tok: "a_refreshToken (body (fst ?L)) = Some (generateRefreshToken cr t0 (user_id u))"
    by blast
  let ?new = "generateRefreshToken cr t0 (user_id u)"
  have stored: "lookup t1 (snd ?L) (refresh_key (user_id u))
                 = (if t1 < t0 + 30 * 24 * 60 * 60 then Some ?new else None)" if "t0 \<le> t1" for t1
    using lookup_setEx [OF set that, of "refresh_key (user_id u)"] by simp
  have superseded: "status (auth_refresh cr f' t1 (snd ?L) (Some old)) = 403"
    if "t0 \<le> t1" "old \<noteq> []" "old \<noteq> ?new" "jwt_decode cr old = Some d" "jwt_id d = user_id u"
    for t1 old d f'
  proof -
    have "status (auth_refresh cr f' t1 (snd ?L) (Some old)) \<noteq> 200"
    proof
      assume "status (auth_refresh cr f' t1 (snd ?L) (Some old)) = 200"
      then obtain d' where v: "jwt_verify cr t1 old = Inr d'"
        and l: "lookup t1 (snd ?L) (refresh_key (jwt_id d')) = Some old"
        unfolding refresh_200_iff by auto
      from v that(4) have "d' = d" by (auto simp: jwt_verify_def split: if_splits)
      with l that(5) stored [OF that(1)] that(3) show False by (auto split: if_splits)
    qed
    with that(2) show ?thesis using refresh_else_403 [of "Some old"] by (simp add: or_empty_def)
  qed
  from u tok stored superseded
  show "\<exists>u \<in> set users.
           a_refreshToken (body (fst ?L)) = Some (generateRefreshToken cr t0 (user_id u))
           \<and> (\<forall>t1. t0 \<le> t1 \<and> t1 < t0 + 30 * 24 * 60 * 60 \<longrightarrow>
                 lookup t1 (snd ?L) (refresh_key (user_id u))
                   = Some (generateRefreshToken cr t0 (user_id u)))
           \<and> (\<forall>t1 old d f'. t0 \<le> t1 \<and> old \<noteq> [] \<and> old \<noteq> generateRefreshToken cr t0 (user_id u)
                   \<and> jwt_decode cr old = Some d \<and> jwt_id d = user_id u \<longrightarrow>
                 status (auth_refresh cr f' t1 (snd ?L) (Some old)) = 403)"
    by (intro bexI [of _ u]) auto
qed

theorem refresh_token_validation_witness:
  "status (fst ex_login2) = 200
   \<and> a_refreshToken (body (fst ex_login1)) = Some ''refresh.1.100''
   \<and> a_refreshToken (body (fst ex_login2)) = Some ''refresh.1.200''
   \<and> status (auth_refresh ex_crypto no_faults 300 (snd ex_login2) (Some ''refresh.1.100'')) = 403
   \<and> status (auth_refresh ex_crypto no_faults 300 (snd ex_login2) (Some ''refresh.1.200'')) = 200"
proof -
  have l2: "status (fst ex_login2) = 200" by (simp add: ex_defs auth_defs)
  have t1: "a_refreshToken (body (fst ex_login1)) = Some ''refresh.1.100''" by (simp add: ex_defs auth_defs)
  have t2: "a_refreshToken (body (fst ex_login2)) = Some ''refresh.1.200''" by (simp add: ex_defs auth_defs)
  have old: "or_empty (Some ''refresh.1.100'') \<noteq> []
     \<and> status (auth_refresh ex_crypto no_faults 300 (snd ex_login2) (Some ''refresh.1.100'')) \<noteq> 200"
    by (simp add: ex_defs auth_defs)
  have new: "jwt_verify ex_crypto 300 ''refresh.1.200''
               = Inr \<lparr>jwt_id = 1, jwt_type = Some ''refresh'', jwt_iat = 200, jwt_exp = 200 + 30 * 24 * 60 * 60\<rparr>
     \<and> \<not> get_fails no_faults
     \<and> lookup 300 (snd ex_login2) (refresh_key 1) = Some ''refresh.1.200''"
    by (simp add: ex_defs auth_defs)
  note T = refresh_token_validation [of ex_crypto no_faults 300 "snd ex_login2" _ no_faults 200 ex_users
      "snd ex_login1" "Some ''ann''" "Some ''secret1''"]
  from T [of "Some ''refresh.1.100''"] old
  have r1: "status (auth_refresh ex_crypto no_faults 300 (snd ex_login2) (Some ''refresh.1.100'')) = 403"
    by blast
  from new have "\<exists>tok d. Some ''refresh.1.200'' = Some tok \<and> tok \<noteq> [] \<and> jwt_verify ex_crypto 300 tok = Inr d
       \<and> \<not> get_fails no_faults \<and> lookup 300 (snd ex_login2) (refresh_key (jwt_id d)) = Some tok"
    by (intro exI [of _ "''refresh.1.200''"]
          exI [of _ "\<lparr>jwt_id = 1, jwt_type = Some ''refresh'', jwt_iat = 200, jwt_exp = 200 + 30 * 24 * 60 * 60\<rparr>"])
       simp
  with T [of "Some ''refresh.1.200''"]
  have r2: "status (auth_refresh ex_crypto no_faults 300 (snd ex_login2) (Some ''refresh.1.200'')) = 200"
    by blast
  from l2 t1 t2 r1 r2 show ?thesis by blast
qed

text \<open>
  C7. When \<open>POST /logout\<close> of the auth service reaches the blacklisting of a presented
  access token that verifies (the refresh-token step before it did not throw, and \<open>setEx\<close>
  succeeds), then from that second until the token's own expiry the key \<open>blacklist:token\<close>
  holds \<open>revoked\<close> and \<open>POST /verify\<close> answers 401 \<open>Token revoked\<close>; the entry's TTL
  is \<open>exp - now\<close>, the token's remaining validity, so the entry is gone at the second the
  token expires. For a token that has already expired \<open>jwt.verify\<close> throws, and the logout
  leaves the store as a logout without access token does.
\<close>

theorem logout_blacklists_access_token:
  "(logout_refresh_step cr f now r rt = Inr r1 \<and> at \<noteq> [] \<and> jwt_decode cr at = Some d
      \<and> now < jwt_exp d \<and> \<not> setEx_fails f \<longrightarrow>
      (\<forall>now'. now \<le> now' \<and> now' < jwt_exp d \<longrightarrow>
         lookup now' (snd (auth_logout cr f now r rt (Some at))) (blacklist_key at) = Some ''revoked''
         \<and> status (auth_verify cr f' now' users (snd (auth_logout cr f now r rt (Some at))) at) = 401
         \<and> (\<not> get_fails f' \<longrightarrow>
              auth_verify cr f' now' users (snd (auth_logout cr f now r rt (Some at))) at
                = auth_reply 401 False ''Token revoked''))
      \<and> ttl_of now (snd (auth_logout cr f now r rt (Some at))) (blacklist_key at)
           = Some (jwt_exp d - now)
      \<and> (\<forall>now'. jwt_exp d \<le> now' \<longrightarrow>
           lookup now' (snd (auth_logout cr f now r rt (Some at))) (blacklist_key at) = None))
   \<and> (jwt_decode cr at = Some d \<and> jwt_exp d \<le> now \<longrightarrow>
        snd (auth_logout cr f now r rt (Some at)) = snd (auth_logout cr f now r rt None))"
proof (intro conjI impI allI)
  assume a: "logout_refresh_step cr f now r rt = Inr r1 \<and> at \<noteq> [] \<and> jwt_decode cr at = Some d
      \<and> now < jwt_exp d \<and> \<not> setEx_fails f"
  let ?r' = "snd (auth_logout cr f now r rt (Some at))"
  from a have set: "redis_setEx f now r1 (blacklist_key at) (int (jwt_exp d) - int now) ''revoked''
           = Inr ?r'"
    using logout_blacklist_state by blast
  from a have n: "nat (int (jwt_exp d) - int now) = jwt_exp d - now" by simp
  from a have e: "now + (jwt_exp d - now) = jwt_exp d" by simp
  show "ttl_of now ?r' (blacklist_key at) = Some (jwt_exp d - now)"
    using ttl_setEx [OF set] n by simp
  fix now'
  {
    assume b: "now \<le> now' \<and> now' < jwt_exp d"
    then show l: "lookup now' ?r' (blacklist_key at) = Some ''revoked''"
      using lookup_setEx [OF set, of now' "blacklist_key at"] n e by simp
    show "status (auth_verify cr f' now' users ?r' at) = 401"
      using verify_blacklisted(1) [OF l] .
    assume "\<not> get_fails f'"
    then show "auth_verify cr f' now' users ?r' at = auth_reply 401 False ''Token revoked''"
      using verify_blacklisted(2) [OF l] by simp
  }
  {
    assume b: "jwt_exp d \<le> now'"
    with a have "now \<le> now'" by simp
    from lookup_setEx [OF set this, of "blacklist_key at"] b n e
    show "lookup now' ?r' (blacklist_key at) = None" by simp
  }
next
  assume "jwt_decode cr at = Some d \<and> jwt_exp d \<le> now"
  then show "snd (auth_logout cr f now r rt (Some at)) = snd (auth_logout cr f now r rt None)"
    using logout_expired_noop by blast
qed


theorem logout_blacklists_access_token_witness:
  "logout_refresh_step ex_crypto no_faults 300 (snd ex_login2) None = Inr (snd ex_login2)
   \<and> jwt_decode ex_crypto ''access.1.200''
        = Some \<lparr>jwt_id = 1, jwt_type = None, jwt_iat = 200, jwt_exp = 605000\<rparr>
   \<and> lookup 300 (snd ex_login2) (blacklist_key ''access.1.200'') = None
   \<and> lookup 301 (snd ex_logout) (blacklist_key ''access.1.200'') = Some ''revoked''
   \<and> status (auth_verify ex_crypto no_faults 301 ex_users (snd ex_logout) ''access.1.200'') = 401
   \<and> ttl_of 300 (snd ex_logout) (blacklist_key ''access.1.200'') = Some 604700
   \<and> lookup 605000 (snd ex_logout) (blacklist_key ''access.1.200'') = None
   \<and> snd (auth_logout ex_crypto no_faults 700000 (snd ex_login2) None (Some ''access.1.200''))
        = snd (auth_logout ex_crypto no_faults 700000 (snd ex_login2) None None)"
proof -
  have h: "logout_refresh_step ex_crypto no_faults 300 (snd ex_login2) None = Inr (snd ex_login2)
     \<and> ''access.1.200'' \<noteq> []
     \<and> jwt_decode ex_crypto ''access.1.200''
          = Some \<lparr>jwt_id = 1, jwt_type = None, jwt_iat = 200, jwt_exp = 605000\<rparr>
     \<and> 300 < jwt_exp \<lparr>jwt_id = 1, jwt_type = None, jwt_iat = 200, jwt_exp = 605000\<rparr>
     \<and> \<not> setEx_fails no_faults"
    by (simp add: ex_defs auth_defs)
  have before: "lookup 300 (snd ex_login2) (blacklist_key ''access.1.200'') = None"
    by (simp add: ex_defs auth_defs)
  have x: "jwt_exp \<lparr>jwt_id = 1, jwt_type = None, jwt_iat = 200, jwt_exp = 605000\<rparr> \<le> 700000"
    by simp
  note T = logout_blacklists_access_token [of ex_crypto no_faults _ "snd ex_login2" None "snd ex_login2"
      "''access.1.200''" "\<lparr>jwt_id = 1, jwt_type = None, jwt_iat = 200, jwt_exp = 605000\<rparr>"
      no_faults ex_users]
  from T [of 300] h have
    a: "\<forall>now'. 300 \<le> now' \<and> now' < 605000 \<longrightarrow>
         lookup now' (snd ex_logout) (blacklist_key ''access.1.200'') = Some ''revoked''
         \<and> status (auth_verify ex_crypto no_faults now' ex_users (snd ex_logout) ''access.1.200'') = 401"
    and b: "ttl_of 300 (snd ex_logout) (blacklist_key ''access.1.200'') = Some (605000 - 300)"
    and c: "\<forall>now'. 605000 \<le> now' \<longrightarrow> lookup now' (snd ex_logout) (blacklist_key ''access.1.200'') = None"
    by (simp_all add: ex_logout_def)
  from T [of 700000] h x have
    d: "snd (auth_logout ex_crypto no_faults 700000 (snd ex_login2) None (Some ''access.1.200''))
        = snd (auth_logout ex_crypto no_faults 700000 (snd ex_login2) None None)"
    by blast
  from a have a1: "lookup 301 (snd ex_logout) (blacklist_key ''access.1.200'') = Some ''revoked''"
    and a2: "status (auth_verify ex_crypto no_faults 301 ex_users (snd ex_logout) ''access.1.200'') = 401"
    by simp_all
  from c have c1: "lookup 605000 (snd ex_logout) (blacklist_key ''access.1.200'') = None" by simp
  from h before a1 a2 b c1 d show ?thesis by simp
qed






subsection \<open>The completion timestamp\<close>

text \<open>
  In the monolith, a \<open>PUT /api/todos/:id\<close> that names \<open>completed\<close> and a
  \<open>PATCH /api/todos/:id/toggle\<close> leave the todo with the completion timestamp \<open>now\<close>
  when the stored flag becomes true and with no timestamp when it becomes false; the
  model's \<open>beforeSave\<close> hook does the same whenever \<open>completed\<close> changed. After any
  history of requests on an empty table no row has a timestamp while its flag is false.
\<close>

theorem monolith_timestamp_follows_flag:
  "(todos_wf db \<and> status (fst (put_todo lib f now U i b db)) = 200 \<and> tb_completed b = Some v \<longrightarrow>
      (\<exists>t'. find (\<lambda>t. todo_id t = i) (todo_rows (snd (put_todo lib f now U i b db))) = Some t'
           \<and> rows (body (fst (put_todo lib f now U i b db))) = [t']
           \<and> completed t' = truthy v
           \<and> completed_at t' = (if truthy v then Some now else None)))
   \<and> (todos_wf db \<and> status (fst (toggle_todo f now U i db)) = 200 \<longrightarrow>
      (\<exists>t t'. find (\<lambda>t. todo_id t = i) (todo_rows db) = Some t
           \<and> find (\<lambda>t. todo_id t = i) (todo_rows (snd (toggle_todo f now U i db))) = Some t'
           \<and> rows (body (fst (toggle_todo f now U i db))) = [t']
           \<and> completed t' = (\<not> completed t)
           \<and> completed_at t' = (if completed t then None else Some now)))
   \<and> completed_at (Todo_beforeSave now True t0) = (if completed t0 then Some now else None)
   \<and> list_all stamp_ok (todo_rows (todos_run lib steps \<lparr>todo_rows = [], todos_next_id = k\<rparr>))"
proof (intro conjI impI)
  assume "todos_wf db \<and> status (fst (put_todo lib f now U i b db)) = 200 \<and> tb_completed b = Some v"
  then show "\<exists>t'. find (\<lambda>t. todo_id t = i) (todo_rows (snd (put_todo lib f now U i b db))) = Some t'
           \<and> rows (body (fst (put_todo lib f now U i b db))) = [t']
           \<and> completed t' = truthy v
           \<and> completed_at t' = (if truthy v then Some now else None)"
    using put_todo_sets_stamp by blast
next
  assume "todos_wf db \<and> status (fst (toggle_todo f now U i db)) = 200"
  then show "\<exists>t t'. find (\<lambda>t. todo_id t = i) (todo_rows db) = Some t
           \<and> find (\<lambda>t. todo_id t = i) (todo_rows (snd (toggle_todo f now U i db))) = Some t'
           \<and> rows (body (fst (toggle_todo f now U i db))) = [t']
           \<and> completed t' = (\<not> completed t)
           \<and> completed_at t' = (if completed t then None else Some now)"
    using toggle_todo_flips by blast
next
  show "completed_at (Todo_beforeSave now True t0) = (if completed t0 then Some now else None)"
    by (rule Todo_beforeSave_changed)
next
  show "list_all stamp_ok (todo_rows (todos_run lib steps \<lparr>todo_rows = [], todos_next_id = k\<rparr>))"
    by (rule todos_run_stamp_ok) simp
qed

theorem monolith_timestamp_follows_flag_witness:
  "todos_wf ex_todo_table
   \<and> tb_completed ex_complete = Some (JBool True)
   \<and> status (fst (put_todo ex_library no_faults 100 1 1 ex_complete ex_todo_table)) = 200
   \<and> map completed (rows (body (fst (put_todo ex_library no_faults 100 1 1 ex_complete ex_todo_table)))) = [True]
   \<and> map completed_at (rows (body (fst (put_todo ex_library no_faults 100 1 1 ex_complete ex_todo_table))))
        = [Some 100]
   \<and> map completed_at (filter (\<lambda>t. todo_id t = 2) (todo_rows ex_todo_table)) = [Some 50]
   \<and> status (fst (toggle_todo no_faults 100 2 2 ex_todo_table)) = 200
   \<and> map completed (rows (body (fst (toggle_todo no_faults 100 2 2 ex_todo_table)))) = [False]
   \<and> map completed_at (rows (body (fst (toggle_todo no_faults 100 2 2 ex_todo_table)))) = [None]"
proof -
  have wf: "todos_wf ex_todo_table" by (simp add: mono_defs)
  have c: "tb_completed ex_complete = Some (JBool True)" by (simp add: ex_complete_def)
  have p: "status (fst (put_todo ex_library no_faults 100 1 1 ex_complete ex_todo_table)) = 200"
    by (simp add: mono_defs)
  have g: "status (fst (toggle_todo no_faults 100 2 2 ex_todo_table)) = 200"
    by (simp add: mono_defs)
  have old: "find (\<lambda>t. todo_id t = 2) (todo_rows ex_todo_table)
      = Some \<lparr>todo_id = 2, todo_text = ''read'', completed = True, todo_user_id = 2,
          priority = ''high'', due_date = None, category = None, completed_at = Some 50,
          todo_created_at = 20, todo_updated_at = 50\<rparr>"
    and old': "map completed_at (filter (\<lambda>t. todo_id t = 2) (todo_rows ex_todo_table)) = [Some 50]"
    by (simp_all add: ex_todo_table_def)
  from monolith_timestamp_follows_flag [of ex_todo_table ex_library no_faults 100 1 1 ex_complete
      "JBool True"] wf c p
  obtain t' where "rows (body (fst (put_todo ex_library no_faults 100 1 1 ex_complete ex_todo_table))) = [t']"
    and "completed t' = truthy (JBool True)"
    and "completed_at t' = (if truthy (JBool True) then Some 100 else None)"
    by blast
  then have a: "map completed (rows (body (fst (put_todo ex_library no_faults 100 1 1 ex_complete ex_todo_table)))) = [True]
     \<and> map completed_at (rows (body (fst (put_todo ex_library no_faults 100 1 1 ex_complete ex_todo_table))))
        = [Some 100]"
    by simp
  from monolith_timestamp_follows_flag [of ex_todo_table ex_library no_faults 100 2 2] wf g
  obtain t t'' where "find (\<lambda>t. todo_id t = 2) (todo_rows ex_todo_table) = Some t"
    and "rows (body (fst (toggle_todo no_faults 100 2 2 ex_todo_table))) = [t'']"
    and "completed t'' = (\<not> completed t)"
    and "completed_at t'' = (if completed t then None else Some 100)"
    by blast
  with old have b: "map completed (rows (body (fst (toggle_todo no_faults 100 2 2 ex_todo_table)))) = [False]
     \<and> map completed_at (rows (body (fst (toggle_todo no_faults 100 2 2 ex_todo_table)))) = [None]"
    by simp
  from wf c p g old' a b show ?thesis by blast
qed


text \<open>
  C9. The todos service breaks the rule that the monolith keeps. Its \<open>PUT /:id\<close>
  stamps by the truthiness of the submitted value, while Sequelize stores the boolean the
  value spells. User 1 sends \<open>{completed: 'false'}\<close>, which \<open>isBoolean()\<close> accepts, for
  the pending todo 1: the string is truthy, so \<open>completedAt\<close> becomes the current time,
  and the stored flag stays false. The row and the response carry a completion timestamp
  while the flag is false.
\<close>

theorem service_put_stamps_pending_todo:
  "map (\<lambda>t. (todo_id t, completed t, completed_at t)) (todo_rows ex_todo_table)
     = [(1, False, None), (2, True, Some 50)]
   \<and> isBoolean (JStr ''false'')
   \<and> status (fst (put_todo_by_id ex_library no_faults 100 1 1 ex_completed_false ex_todo_table []))
       = 200
   \<and> map (\<lambda>t. (todo_id t, completed t, completed_at t))
        (rows (body (fst (put_todo_by_id ex_library no_faults 100 1 1 ex_completed_false
                            ex_todo_table []))))
       = [(1, False, Some 100)]
   \<and> map (\<lambda>t. (todo_id t, completed t, completed_at t))
        (todo_rows (fst (snd (put_todo_by_id ex_library no_faults 100 1 1 ex_completed_false
                                ex_todo_table []))))
       = [(1, False, Some 100), (2, True, Some 50)]
   \<and> \<not> list_all stamp_ok
          (todo_rows (fst (snd (put_todo_by_id ex_library no_faults 100 1 1 ex_completed_false
                                  ex_todo_table []))))"
  by (simp add: put_todo_by_id_def put_todo_service_def Todo_update_def valid_update_todo_def
        valid_priority_def valid_category_length_def valid_dueDate_def clearUserCache_todos_def
        clear_pattern_def redis_keys_def redis_del_def live_def reply_def stamp_ok_def
        ex_completed_false_def ex_todo_table_def ex_library_def no_faults_def Let_def)

subsection \<open>The password in responses\<close>

text \<open>
  In the monolith no response of register, login, demo login or profile carries a user
  object with a \<open>password\<close> field: the user object is the instance serialized through
  \<open>toJSON\<close>, which deletes it, and what is left does not depend on the password column.
  The register response is the same for any two passwords that pass validation; and every
  row that register or demo login adds to the users table holds the bcrypt hash of the
  submitted password, written by the \<open>beforeSave\<close> hook before the insert.
\<close>

theorem user_object_without_password:
  "''password'' \<notin> set (user_keys (fst (register lib cr f now db b)))
   \<and> ''password'' \<notin> set (user_keys (login cr f now db un pw))
   \<and> ''password'' \<notin> set (user_keys (fst (demo lib cr f now db)))
   \<and> ''password'' \<notin> set (user_keys (me cr f now db h))
   \<and> User_toJSON (u\<lparr>password := p\<rparr>) = User_toJSON u
   \<and> (password_ok p1 \<and> password_ok p2 \<longrightarrow>
        fst (register lib cr f now db (b\<lparr>r_password := Some p1\<rparr>))
          = fst (register lib cr f now db (b\<lparr>r_password := Some p2\<rparr>)))
   \<and> list_all (\<lambda>u. u \<in> set (user_rows db) \<or> password u = bcrypt_hash cr (or_empty (r_password b)))
        (user_rows (snd (register lib cr f now db b)))
   \<and> list_all (\<lambda>u. u \<in> set (user_rows db) \<or> password u = bcrypt_hash cr ''demo123'')
        (user_rows (snd (demo lib cr f now db)))"
proof (intro conjI impI)
  show "''password'' \<notin> set (user_keys (fst (register lib cr f now db b)))"
    by (rule register_keys)
  show "''password'' \<notin> set (user_keys (login cr f now db un pw))"
    by (rule login_keys)
  show "''password'' \<notin> set (user_keys (fst (demo lib cr f now db)))"
    by (rule demo_keys)
  show "''password'' \<notin> set (user_keys (me cr f now db h))"
    by (rule me_keys)
  show "User_toJSON (u\<lparr>password := p\<rparr>) = User_toJSON u"
    by (rule User_toJSON_ignores_password)
  show "fst (register lib cr f now db (b\<lparr>r_password := Some p1\<rparr>))
          = fst (register lib cr f now db (b\<lparr>r_password := Some p2\<rparr>))"
    if "password_ok p1 \<and> password_ok p2"
    using that register_ignores_password by blast
  show "list_all (\<lambda>u. u \<in> set (user_rows db) \<or> password u = bcrypt_hash cr (or_empty (r_password b)))
        (user_rows (snd (register lib cr f now db b)))"
    by (rule register_stores_hash)
  show "list_all (\<lambda>u. u \<in> set (user_rows db) \<or> password u = bcrypt_hash cr ''demo123'')
        (user_rows (snd (demo lib cr f now db)))"
    by (rule demo_stores_hash)
qed

lemmas user_defs = register_def login_def demo_def me_def User_create_def User_validate_def
  User_beforeSave_def User_toJSON_def User_get_def without_password_def user_reply_def
  auth_reply_def valid_register_def matches_username_def is_word_char_def notEmpty_def
  password_ok_def user_keys_def generateToken_def toLowerCase_def to_lower_char_def trim_def
  is_space_def or_empty_def ex_user_table_def ex_register_def ex_users_def ex_library_def
  ex_crypto_def ex_sign_def no_faults_def Let_def



theorem user_object_without_password_witness:
  "password_ok ''hunter22'' \<and> password_ok ''secret99''
   \<and> fst (register ex_library ex_crypto no_faults 100 ex_user_table ex_register)
       = fst (register ex_library ex_crypto no_faults 100 ex_user_table
                (ex_register\<lparr>r_password := Some ''secret99''\<rparr>))
   \<and> status (fst (register ex_library ex_crypto no_faults 100 ex_user_table ex_register)) = 201
   \<and> set (user_keys (fst (register ex_library ex_crypto no_faults 100 ex_user_table ex_register)))
       = {''id'', ''name'', ''email'', ''username'', ''createdAt'', ''updatedAt''}
   \<and> map password (user_rows (snd (register ex_library ex_crypto no_faults 100 ex_user_table ex_register)))
       = [''$2a$12$secret1'', ''$2a$12$hunter22'']"
proof -
  have same: "ex_register\<lparr>r_password := Some ''hunter22''\<rparr> = ex_register"
    by (simp add: ex_register_def)
  from user_object_without_password [where lib = ex_library and cr = ex_crypto and f = no_faults
      and now = 100 and db = ex_user_table and b = ex_register and ?p1.0 = "''hunter22''"
      and ?p2.0 = "''secret99''"] ex_passwords_ok
  have "fst (register ex_library ex_crypto no_faults 100 ex_user_table
               (ex_register\<lparr>r_password := Some ''hunter22''\<rparr>))
       = fst (register ex_library ex_crypto no_faults 100 ex_user_table
                (ex_register\<lparr>r_password := Some ''secret99''\<rparr>))"
    by blast
  then have eq: "fst (register ex_library ex_crypto no_faults 100 ex_user_table ex_register)
       = fst (register ex_library ex_crypto no_faults 100 ex_user_table
                (ex_register\<lparr>r_password := Some ''secret99''\<rparr>))"
    unfolding same .
  have st: "status (fst (register ex_library ex_crypto no_faults 100 ex_user_table ex_register)) = 201"
    unfolding ex_register_evaluated by (simp add: user_reply_def)
  have ks: "set (user_keys (fst (register ex_library ex_crypto no_faults 100 ex_user_table ex_register)))
       = {''id'', ''name'', ''email'', ''username'', ''createdAt'', ''updatedAt''}"
    unfolding ex_register_evaluated
    by (simp add: user_reply_def user_keys_def User_toJSON_def User_get_def without_password_def)
  have pws: "map password (user_rows (snd (register ex_library ex_crypto no_faults 100 ex_user_table ex_register)))
       = [''$2a$12$secret1'', ''$2a$12$hunter22'']"
    unfolding ex_register_evaluated by (simp add: ex_users_def)
  from ex_passwords_ok eq st ks pws show ?thesis by (intro conjI) simp_all
qed


text \<open>
  C10. The register route sends a rejected password back. A body that fails the validator
  chains is answered 400 with \<open>errors: errors.array()\<close>, and the entry of a rejected
  field carries the value that was submitted. Here a registration with the five-character
  password \<open>12345\<close> is refused, and its response holds that password in plain text; the
  response to a different rejected password differs accordingly.
\<close>

theorem register_echoes_rejected_password:
  "register ex_library ex_crypto no_faults 100 ex_user_table ex_short_password
     = (auth_errors 400 ''Validation failed''
          [\<lparr>ve_field = ''password'', ve_msg = ''Password must be at least 6 characters long'',
            ve_value = Some ''12345''\<rparr>],
        ex_user_table)
   \<and> map ve_value (a_errors (body (fst (register ex_library ex_crypto no_faults 100 ex_user_table
          (ex_short_password\<lparr>r_password := Some ''abc''\<rparr>))))) = [Some ''abc'']"
  by (simp add: register_def valid_register_def register_errors_def rejected_def auth_errors_def
        ex_short_password_def ex_library_def or_empty_def ex_trim matches_username_def
        is_word_char_def Let_def)

end
